theory Spec2Isabelle
  imports Complex_Main "HOL-Library.Sublist"
begin

section \<open>Python values\<close>

text \<open>
  A Python \<open>str\<close> is a sequence of Unicode code points, and \<open>len\<close> counts code points.
  The formatters of \<open>server.py\<close> contain the non-ASCII characters U+2192 (rightwards arrow)
  and U+2014 (em dash), so a string is modelled as a list of code points; \<open>lit\<close> embeds an
  ASCII literal.
\<close>

type_synonym pystr = "nat list"

definition lit :: "string \<Rightarrow> pystr" where
  "lit s = map of_char s"

definition dq :: pystr where "dq = [34]"
definition sq :: pystr where "sq = [39]"
definition nl :: pystr where "nl = [10]"
definition arrow :: pystr where "arrow = [8594]"
definition emdash :: pystr where "emdash = [8212]"

text \<open>\<open>str(n)\<close> for a non-negative integer, and for any integer.\<close>

fun str_nat :: "nat \<Rightarrow> pystr" where
  "str_nat n = (if n < 10 then [48 + n] else str_nat (n div 10) @ [48 + n mod 10])"

declare str_nat.simps [simp del]

definition str_int :: "int \<Rightarrow> pystr" where
  "str_int i = (if i < 0 then 45 # str_nat (nat (- i)) else str_nat (nat i))"

text \<open>\<open>sep.join(xs)\<close> on a list of strings.\<close>

fun join :: "pystr \<Rightarrow> pystr list \<Rightarrow> pystr" where
  "join sep [] = []"
| "join sep [x] = x"
| "join sep (x # y # ys) = x @ sep @ join sep (y # ys)"

text \<open>\<open>s.split("\n")\<close>: the physical lines of a string.\<close>

fun split_nl :: "pystr \<Rightarrow> pystr list" where
  "split_nl [] = [[]]"
| "split_nl (c # cs) =
     (if c = 10 then [] # split_nl cs
      else (case split_nl cs of [] \<Rightarrow> [[c]] | x # xs \<Rightarrow> (c # x) # xs))"

text \<open>\<open>s.rstrip("/")\<close>.\<close>

definition rstrip_slash :: "pystr \<Rightarrow> pystr" where
  "rstrip_slash s = rev (dropWhile (\<lambda>c. c = 47) (rev s))"

text \<open>
  What \<open>json.loads\<close> returns: \<open>None\<close>, \<open>bool\<close>, \<open>int\<close>, \<open>float\<close> (a finite value,
  an infinity or NaN), \<open>str\<close>, \<open>list\<close> and \<open>dict\<close>. A \<open>dict\<close> is an association list in
  insertion order; a lookup takes the first binding of a key.
\<close>

datatype pyfloat = Fin rat | PosInf | NegInf | NaN

datatype json =
    JNull
  | JBool bool
  | JInt int
  | JFloat pyfloat
  | JStr pystr
  | JList "json list"
  | JObj "(pystr \<times> json) list"

text \<open>
  The exceptions that reach the handlers: \<open>RuntimeError\<close> (raised by \<open>server.py\<close> itself),
  \<open>httpx.HTTPStatusError\<close> (status code and URL), \<open>httpx.TransportError\<close>,
  \<open>json.JSONDecodeError\<close>, and the built-in errors of dynamically typed access and of
  number formatting.
\<close>

datatype exn =
    RuntimeError pystr
  | HTTPStatusError nat pystr
  | TransportError pystr
  | JSONDecodeError pystr
  | KeyError pystr
  | AttributeError pystr
  | TypeError pystr
  | ValueError pystr
  | OverflowError pystr

text \<open>
  Library behaviour that \<open>server.py\<close> calls and does not define: the format specification
  \<open>.0f\<close> on a number, \<open>str()\<close> of a float, list or dict, the message of an
  \<open>httpx.HTTPStatusError\<close> for a status code and URL, and
  \<open>json.dumps(data, indent=2, ensure_ascii=False, default=str)\<close>.
\<close>

record pylib =
  format_0f :: "json \<Rightarrow> pystr"
  repr :: "json \<Rightarrow> pystr"
  status_message :: "nat \<Rightarrow> pystr \<Rightarrow> pystr"
  dumps :: "json \<Rightarrow> pystr"

definition andthen :: "exn + 'a \<Rightarrow> ('a \<Rightarrow> exn + 'b) \<Rightarrow> exn + 'b" where
  "andthen m f = (case m of Inl e \<Rightarrow> Inl e | Inr x \<Rightarrow> f x)"

fun type_name :: "json \<Rightarrow> pystr" where
  "type_name JNull = lit ''NoneType''"
| "type_name (JBool _) = lit ''bool''"
| "type_name (JInt _) = lit ''int''"
| "type_name (JFloat _) = lit ''float''"
| "type_name (JStr _) = lit ''str''"
| "type_name (JList _) = lit ''list''"
| "type_name (JObj _) = lit ''dict''"

text \<open>Truth value of an object, as tested by \<open>if x\<close>, \<open>not x\<close> and \<open>x or y\<close>.\<close>

fun truthy :: "json \<Rightarrow> bool" where
  "truthy JNull = False"
| "truthy (JBool b) = b"
| "truthy (JInt i) = (i \<noteq> 0)"
| "truthy (JFloat (Fin r)) = (r \<noteq> 0)"
| "truthy (JFloat _) = True"
| "truthy (JStr s) = (s \<noteq> [])"
| "truthy (JList xs) = (xs \<noteq> [])"
| "truthy (JObj kvs) = (kvs \<noteq> [])"

text \<open>\<open>x.get(key, default)\<close>: only a \<open>dict\<close> has the method.\<close>

fun py_get :: "json \<Rightarrow> pystr \<Rightarrow> json \<Rightarrow> exn + json" where
  "py_get (JObj kvs) k d = Inr (case map_of kvs k of Some v \<Rightarrow> v | None \<Rightarrow> d)"
| "py_get x k d =
     Inl (AttributeError (sq @ type_name x @ sq @ lit '' object has no attribute '' @ sq @ lit ''get'' @ sq))"

text \<open>\<open>x[key]\<close> with a string key.\<close>

fun py_getitem :: "json \<Rightarrow> pystr \<Rightarrow> exn + json" where
  "py_getitem (JObj kvs) k =
     (case map_of kvs k of Some v \<Rightarrow> Inr v | None \<Rightarrow> Inl (KeyError k))"
| "py_getitem (JStr _) k = Inl (TypeError (lit ''string indices must be integers, not '' @ sq @ lit ''str'' @ sq))"
| "py_getitem (JList _) k = Inl (TypeError (lit ''list indices must be integers or slices, not str''))"
| "py_getitem x k = Inl (TypeError (sq @ type_name x @ sq @ lit '' object is not subscriptable''))"

text \<open>\<open>x > 0\<close>: defined on numbers (a \<open>bool\<close> is an \<open>int\<close>), a \<open>TypeError\<close> otherwise.\<close>

fun py_gt0 :: "json \<Rightarrow> exn + bool" where
  "py_gt0 (JBool b) = Inr b"
| "py_gt0 (JInt i) = Inr (0 < i)"
| "py_gt0 (JFloat (Fin r)) = Inr (0 < r)"
| "py_gt0 (JFloat PosInf) = Inr True"
| "py_gt0 (JFloat _) = Inr False"
| "py_gt0 x =
     Inl (TypeError (sq @ lit ''>'' @ sq @ lit '' not supported between instances of '' @ sq @ type_name x @ sq
                    @ lit '' and '' @ sq @ lit ''int'' @ sq))"

text \<open>\<open>len(x)\<close>.\<close>

fun py_len :: "json \<Rightarrow> exn + nat" where
  "py_len (JStr s) = Inr (length s)"
| "py_len (JList xs) = Inr (length xs)"
| "py_len (JObj kvs) = Inr (length kvs)"
| "py_len x = Inl (TypeError (lit ''object of type '' @ sq @ type_name x @ sq @ lit '' has no len()''))"

text \<open>\<open>x[:n]\<close>.\<close>

fun py_slice_to :: "json \<Rightarrow> nat \<Rightarrow> exn + json" where
  "py_slice_to (JStr s) n = Inr (JStr (take n s))"
| "py_slice_to (JList xs) n = Inr (JList (take n xs))"
| "py_slice_to (JObj _) n = Inl (TypeError (lit ''unhashable type: '' @ sq @ lit ''slice'' @ sq))"
| "py_slice_to x n = Inl (TypeError (sq @ type_name x @ sq @ lit '' object is not subscriptable''))"

text \<open>\<open>x + "..."\<close>.\<close>

fun py_add_str :: "json \<Rightarrow> pystr \<Rightarrow> exn + json" where
  "py_add_str (JStr s) t = Inr (JStr (s @ t))"
| "py_add_str (JList _) t = Inl (TypeError (lit ''can only concatenate list (not '' @ dq @ lit ''str'' @ dq @ lit '') to list''))"
| "py_add_str x t =
     Inl (TypeError (lit ''unsupported operand type(s) for +: '' @ sq @ type_name x @ sq @ lit '' and '' @ sq
                    @ lit ''str'' @ sq))"

text \<open>\<open>for m in x\<close>: the items of a list, the keys of a dict, the characters of a string.\<close>

fun py_iter :: "json \<Rightarrow> exn + json list" where
  "py_iter (JList xs) = Inr xs"
| "py_iter (JObj kvs) = Inr (map (\<lambda>kv. JStr (fst kv)) kvs)"
| "py_iter (JStr s) = Inr (map (\<lambda>c. JStr [c]) s)"
| "py_iter x = Inl (TypeError (sq @ type_name x @ sq @ lit '' object is not iterable''))"

text \<open>\<open>x.items()\<close>.\<close>

fun py_items :: "json \<Rightarrow> exn + (pystr \<times> json) list" where
  "py_items (JObj kvs) = Inr kvs"
| "py_items x =
     Inl (AttributeError (sq @ type_name x @ sq @ lit '' object has no attribute '' @ sq @ lit ''items'' @ sq))"

text \<open>\<open>f"{x}"\<close>, that is \<open>str(x)\<close>.\<close>

fun py_str :: "pylib \<Rightarrow> json \<Rightarrow> pystr" where
  "py_str L (JStr s) = s"
| "py_str L JNull = lit ''None''"
| "py_str L (JBool b) = (if b then lit ''True'' else lit ''False'')"
| "py_str L (JInt i) = str_int i"
| "py_str L x = repr L x"

text \<open>
  \<open>float(i)\<close> for an \<open>int\<close> rounds to the nearest double, ties to even, and raises
  \<open>OverflowError\<close> when the result would exceed the largest double \<open>2^1024 - 2^971\<close>: that
  is from \<open>2^1024 - 2^970\<close> on in absolute value.
\<close>

definition in_float_range :: "int \<Rightarrow> bool" where
  "in_float_range i = (\<bar>i\<bar> < 2 ^ 1024 - 2 ^ 970)"

text \<open>\<open>f"{x:.0f}"\<close>: an \<open>int\<close> is converted to \<open>float\<close> first.\<close>

fun py_format_0f :: "pylib \<Rightarrow> json \<Rightarrow> exn + pystr" where
  "py_format_0f L (JBool b) = Inr (format_0f L (JBool b))"
| "py_format_0f L (JInt i) =
     (if in_float_range i then Inr (format_0f L (JInt i))
      else Inl (OverflowError (lit ''int too large to convert to float'')))"
| "py_format_0f L (JFloat x) = Inr (format_0f L (JFloat x))"
| "py_format_0f L (JStr _) = Inl (ValueError (lit ''Unknown format code '' @ sq @ lit ''f'' @ sq @ lit '' for object of type '' @ sq
                     @ lit ''str'' @ sq))"
| "py_format_0f L x =
     Inl (TypeError (lit ''unsupported format string passed to '' @ type_name x @ lit ''.__format__''))"

text \<open>\<open>"\n".join(lines)\<close> on a list of objects: every item must be a \<open>str\<close>.\<close>

fun join_items :: "nat \<Rightarrow> json list \<Rightarrow> exn + pystr list" where
  "join_items i [] = Inr []"
| "join_items i (JStr s # xs) = andthen (join_items (Suc i) xs) (\<lambda>ss. Inr (s # ss))"
| "join_items i (x # xs) =
     Inl (TypeError (lit ''sequence item '' @ str_nat i @ lit '': expected str instance, ''
                     @ type_name x @ lit '' found''))"

definition py_join :: "pystr \<Rightarrow> json list \<Rightarrow> exn + pystr" where
  "py_join sep xs = andthen (join_items 0 xs) (\<lambda>ss. Inr (join sep ss))"

text \<open>\<open>str(e)\<close> of an exception; a \<open>KeyError\<close> prints the \<open>repr\<close> of its key.\<close>

fun str_exn :: "pylib \<Rightarrow> exn \<Rightarrow> pystr" where
  "str_exn L (RuntimeError m) = m"
| "str_exn L (HTTPStatusError code u) = status_message L code u"
| "str_exn L (TransportError m) = m"
| "str_exn L (JSONDecodeError m) = m"
| "str_exn L (KeyError k) = sq @ k @ sq"
| "str_exn L (AttributeError m) = m"
| "str_exn L (TypeError m) = m"
| "str_exn L (ValueError m) = m"
| "str_exn L (OverflowError m) = m"

section \<open>The Nativ API client\<close>

definition DEFAULT_API_URL :: pystr where
  "DEFAULT_API_URL = lit ''https://api.usenativ.com''"

record NativClient =
  base_url :: pystr
  headers :: "(pystr \<times> pystr) list"

text \<open>\<open>NativClient.__init__\<close>; \<open>base_url\<close> is \<open>None\<close> or a string.\<close>

definition NativClient_init :: "pystr \<Rightarrow> pystr option \<Rightarrow> NativClient" where
  "NativClient_init api_key burl =
     \<lparr> base_url = rstrip_slash (case burl of None \<Rightarrow> DEFAULT_API_URL
                                  | Some u \<Rightarrow> if u = [] then DEFAULT_API_URL else u),
       headers = [(lit ''X-API-Key'', api_key),
                  (lit ''Content-Type'', lit ''application/json''),
                  (lit ''User-Agent'', lit ''nativ-mcp/0.1.0'')] \<rparr>"

record http_request =
  http_method :: pystr
  url :: pystr
  req_headers :: "(pystr \<times> pystr) list"
  json_body :: "(pystr \<times> json) list option"
  params :: "(pystr \<times> json) list option"

text \<open>
  What one HTTP exchange ends in: a transport-level fault (\<open>httpx\<close> raises a
  \<open>TransportError\<close> with a message), or a response with a status code and a body that
  either decodes as JSON or makes \<open>resp.json()\<close> raise a \<open>JSONDecodeError\<close>.
  The upstream service answers a request knowing the requests sent before it.
\<close>

datatype http_outcome = NoResponse pystr | Response nat "pystr + json"

type_synonym upstream = "http_request list \<Rightarrow> http_request \<Rightarrow> http_outcome"

definition INSUFFICIENT_CREDITS :: pystr where
  "INSUFFICIENT_CREDITS = lit ''Insufficient Nativ credits. Top up at https://dashboard.usenativ.com''"

text \<open>\<open>Response.raise_for_status\<close> of \<open>httpx\<close> raises on every status outside 200..299.\<close>

definition is_success :: "nat \<Rightarrow> bool" where
  "is_success status = (200 \<le> status \<and> status \<le> 299)"

text \<open>
  \<open>NativClient._request\<close>. The second component of the result is the list of the requests
  sent so far.
\<close>

definition client_request ::
  "NativClient \<Rightarrow> upstream \<Rightarrow> pystr \<Rightarrow> pystr \<Rightarrow> (pystr \<times> json) list option
     \<Rightarrow> (pystr \<times> json) list option \<Rightarrow> http_request list \<Rightarrow> (exn + json) \<times> http_request list" where
  "client_request c up meth path body ps sent =
     (let req = \<lparr> http_method = meth, url = base_url c @ path, req_headers = headers c,
                  json_body = body, params = ps \<rparr>
      in (case up sent req of
            NoResponse m \<Rightarrow> Inl (TransportError m)
          | Response status b \<Rightarrow>
              if status = 402 then Inl (RuntimeError INSUFFICIENT_CREDITS)
              else if \<not> is_success status then Inl (HTTPStatusError status (url req))
              else (case b of Inl m \<Rightarrow> Inl (JSONDecodeError m) | Inr j \<Rightarrow> Inr j),
          sent @ [req]))"

text \<open>\<open>x or None\<close> for a string argument, and the body or query key of an optional string.\<close>

definition or_none :: "pystr \<Rightarrow> pystr option" where
  "or_none s = (if s = [] then None else Some s)"

definition opt_key :: "pystr \<Rightarrow> pystr option \<Rightarrow> (pystr \<times> json) list" where
  "opt_key k v = (case v of None \<Rightarrow> [] | Some s \<Rightarrow> if s = [] then [] else [(k, JStr s)])"

text \<open>The \<open>body\<close> dictionary that \<open>NativClient.translate\<close> builds.\<close>

definition translate_body ::
  "pystr \<Rightarrow> pystr \<Rightarrow> pystr option \<Rightarrow> pystr \<Rightarrow> pystr \<Rightarrow> pystr option \<Rightarrow> pystr option
     \<Rightarrow> pystr option \<Rightarrow> int option \<Rightarrow> bool \<Rightarrow> bool \<Rightarrow> bool \<Rightarrow> (pystr \<times> json) list" where
  "translate_body text language language_code source_language source_language_code
       ctx glossary formality max_characters include_tm_info backtranslate include_rationale =
     [(lit ''text'', JStr text),
      (lit ''language'', JStr language),
      (lit ''source_language'', JStr source_language),
      (lit ''source_language_code'', JStr source_language_code),
      (lit ''tool'', JStr (lit ''api'')),
      (lit ''include_tm_info'', JBool include_tm_info),
      (lit ''backtranslate'', JBool backtranslate),
      (lit ''include_rationale'', JBool include_rationale)]
     @ opt_key (lit ''language_code'') language_code
     @ opt_key (lit ''context'') ctx
     @ opt_key (lit ''glossary'') glossary
     @ opt_key (lit ''formality'') formality
     @ (case max_characters of None \<Rightarrow> [] | Some n \<Rightarrow> [(lit ''max_characters'', JInt n)])"

definition client_translate ::
  "NativClient \<Rightarrow> upstream \<Rightarrow> pystr \<Rightarrow> pystr \<Rightarrow> pystr option \<Rightarrow> pystr \<Rightarrow> pystr
     \<Rightarrow> pystr option \<Rightarrow> pystr option \<Rightarrow> pystr option \<Rightarrow> int option \<Rightarrow> bool \<Rightarrow> bool \<Rightarrow> bool
     \<Rightarrow> http_request list \<Rightarrow> (exn + json) \<times> http_request list" where
  "client_translate c up text language language_code source_language source_language_code
       ctx glossary formality max_characters include_tm_info backtranslate include_rationale sent =
     client_request c up (lit ''POST'') (lit ''/text/culturalize'')
       (Some (translate_body text language language_code source_language source_language_code
                ctx glossary formality max_characters include_tm_info backtranslate include_rationale))
       None sent"

definition client_get_languages ::
  "NativClient \<Rightarrow> upstream \<Rightarrow> http_request list \<Rightarrow> (exn + json) \<times> http_request list" where
  "client_get_languages c up sent =
     client_request c up (lit ''GET'') (lit ''/user/languages'') None None sent"

definition client_search_tm ::
  "NativClient \<Rightarrow> upstream \<Rightarrow> pystr \<Rightarrow> pystr \<Rightarrow> pystr option \<Rightarrow> pyfloat \<Rightarrow> int
     \<Rightarrow> http_request list \<Rightarrow> (exn + json) \<times> http_request list" where
  "client_search_tm c up query source_lang target_lang score_cutoff limit sent =
     client_request c up (lit ''GET'') (lit ''/master-tm/fuzzy-search'') None
       (Some ([(lit ''query'', JStr query),
               (lit ''source_lang'', JStr source_lang),
               (lit ''score_cutoff'', JFloat score_cutoff),
               (lit ''limit'', JInt limit)]
              @ opt_key (lit ''target_lang'') target_lang))
       sent"

definition client_list_tm_entries ::
  "NativClient \<Rightarrow> upstream \<Rightarrow> pystr option \<Rightarrow> pystr option \<Rightarrow> pystr option \<Rightarrow> int \<Rightarrow> int
     \<Rightarrow> http_request list \<Rightarrow> (exn + json) \<times> http_request list" where
  "client_list_tm_entries c up source_lang target_lang search limit offset sent =
     client_request c up (lit ''GET'') (lit ''/master-tm/entries'') None
       (Some ([(lit ''limit'', JInt limit), (lit ''offset'', JInt offset)]
              @ opt_key (lit ''source_lang'') source_lang
              @ opt_key (lit ''target_lang'') target_lang
              @ opt_key (lit ''search'') search))
       sent"

definition client_add_tm_entry ::
  "NativClient \<Rightarrow> upstream \<Rightarrow> pystr \<Rightarrow> pystr \<Rightarrow> pystr \<Rightarrow> pystr \<Rightarrow> pystr option
     \<Rightarrow> http_request list \<Rightarrow> (exn + json) \<times> http_request list" where
  "client_add_tm_entry c up source_text target_text source_language_code target_language_code
       source_name sent =
     client_request c up (lit ''POST'') (lit ''/master-tm/entries'')
       (Some ([(lit ''source_text'', JStr source_text),
               (lit ''target_text'', JStr target_text),
               (lit ''source_language_code'', JStr source_language_code),
               (lit ''target_language_code'', JStr target_language_code),
               (lit ''information_source'', JStr (lit ''manual''))]
              @ opt_key (lit ''source_name'') source_name))
       None sent"

definition client_get_tm_stats ::
  "NativClient \<Rightarrow> upstream \<Rightarrow> http_request list \<Rightarrow> (exn + json) \<times> http_request list" where
  "client_get_tm_stats c up sent =
     client_request c up (lit ''GET'') (lit ''/master-tm/stats'') None None sent"

definition client_list_style_guides ::
  "NativClient \<Rightarrow> upstream \<Rightarrow> http_request list \<Rightarrow> (exn + json) \<times> http_request list" where
  "client_list_style_guides c up sent =
     client_request c up (lit ''GET'') (lit ''/style-guide'') None None sent"

definition client_get_brand_prompt ::
  "NativClient \<Rightarrow> upstream \<Rightarrow> http_request list \<Rightarrow> (exn + json) \<times> http_request list" where
  "client_get_brand_prompt c up sent =
     client_request c up (lit ''GET'') (lit ''/style-guide/prompt'') None None sent"

definition client_get_combined_prompt ::
  "NativClient \<Rightarrow> upstream \<Rightarrow> http_request list \<Rightarrow> (exn + json) \<times> http_request list" where
  "client_get_combined_prompt c up sent =
     client_request c up (lit ''GET'') (lit ''/style-guide/combined'') None None sent"

section \<open>Helpers\<close>

text \<open>The process environment, \<open>os.environ\<close>.\<close>

type_synonym environ = "pystr \<Rightarrow> pystr option"

definition MISSING_API_KEY :: pystr where
  "MISSING_API_KEY =
     lit ''NATIV_API_KEY environment variable is required. Create one at https://dashboard.usenativ.com ''
     @ arrow @ lit '' Settings '' @ arrow @ lit '' API Keys''"

text \<open>\<open>_get_client\<close>: reads the environment, raises on a missing or empty key.\<close>

definition get_client :: "environ \<Rightarrow> exn + NativClient" where
  "get_client env =
     (case env (lit ''NATIV_API_KEY'') of
        None \<Rightarrow> Inl (RuntimeError MISSING_API_KEY)
      | Some api_key \<Rightarrow>
          if api_key = [] then Inl (RuntimeError MISSING_API_KEY)
          else Inr (NativClient_init api_key (env (lit ''NATIV_API_URL''))))"

text \<open>\<open>_fmt_json\<close>.\<close>

definition fmt_json :: "pylib \<Rightarrow> json \<Rightarrow> pystr" where
  "fmt_json L data = dumps L data"

text \<open>
  A \<open>for\<close> loop that appends one rendered item per element and stops at the first
  exception.
\<close>

fun for_each :: "('a \<Rightarrow> exn + 'b) \<Rightarrow> 'a list \<Rightarrow> exn + 'b list" where
  "for_each f [] = Inr []"
| "for_each f (x # xs) = andthen (f x) (\<lambda>y. andthen (for_each f xs) (\<lambda>ys. Inr (y # ys)))"

text \<open>
  A handler awaits one client call and formats its result: the exception of the call, or
  of the formatter, propagates.
\<close>

definition await ::
  "(exn + json) \<times> http_request list \<Rightarrow> (json \<Rightarrow> exn + 'a) \<Rightarrow> (exn + 'a) \<times> http_request list" where
  "await r f = (andthen (fst r) f, snd r)"

section \<open>Tools\<close>

subsection \<open>\<open>translate\<close>\<close>

text \<open>
  The lines that \<open>translate\<close> appends for \<open>tm = result.get("tm_match")\<close>: nothing unless
  \<open>tm and tm.get("score", 0) > 0\<close>, else the match line and, when \<open>tm.get("source_text")\<close>
  is true, the reference line.
\<close>

definition tm_match_parts :: "pylib \<Rightarrow> json \<Rightarrow> exn + pystr list" where
  "tm_match_parts L tm =
     (if \<not> truthy tm then Inr []
      else
        andthen (py_get tm (lit ''score'') (JInt 0)) (\<lambda>sc.
        andthen (py_gt0 sc) (\<lambda>pos.
        if \<not> pos then Inr []
        else
          andthen (py_getitem tm (lit ''score'')) (\<lambda>score.
          andthen (py_format_0f L score) (\<lambda>pct.
          andthen (py_get tm (lit ''match_type'') (JStr (lit ''unknown''))) (\<lambda>match_type.
          andthen (py_get tm (lit ''tm_source'') (JStr (lit ''N/A''))) (\<lambda>tm_source.
          andthen (py_get tm (lit ''source_text'') JNull) (\<lambda>st.
          if \<not> truthy st then
            Inr [nl @ lit ''**TM Match:** '' @ pct @ lit ''% ('' @ py_str L match_type @ lit '') ''
                 @ emdash @ lit '' source: '' @ py_str L tm_source]
          else
            andthen (py_getitem tm (lit ''source_text'')) (\<lambda>source_text.
            andthen (py_get tm (lit ''target_text'') (JStr [])) (\<lambda>target_text.
            Inr [nl @ lit ''**TM Match:** '' @ pct @ lit ''% ('' @ py_str L match_type @ lit '') ''
                 @ emdash @ lit '' source: '' @ py_str L tm_source,
                 lit ''  TM reference: '' @ dq @ py_str L source_text @ dq @ lit '' '' @ arrow
                 @ lit '' '' @ dq @ py_str L target_text @ dq]))))))))))"

text \<open>A section of the output that is present when \<open>result.get(key)\<close> is true.\<close>

definition optional_part :: "pylib \<Rightarrow> json \<Rightarrow> pystr \<Rightarrow> pystr \<Rightarrow> exn + pystr list" where
  "optional_part L result key label =
     andthen (py_get result key JNull) (\<lambda>v.
     if \<not> truthy v then Inr []
     else andthen (py_getitem result key) (\<lambda>w. Inr [nl @ label @ py_str L w]))"

text \<open>The list \<open>parts\<close> that \<open>translate\<close> builds from the upstream result.\<close>

definition translate_parts :: "pylib \<Rightarrow> pystr \<Rightarrow> json \<Rightarrow> exn + pystr list" where
  "translate_parts L target_language result =
     andthen (py_get result (lit ''translated_text'') (JStr [])) (\<lambda>translated_text.
     andthen (py_get result (lit ''tm_match'') JNull) (\<lambda>tm.
     andthen (tm_match_parts L tm) (\<lambda>tm_lines.
     andthen (optional_part L result (lit ''backtranslation'') (lit ''**Back-translation:** '')) (\<lambda>bt.
     andthen (optional_part L result (lit ''rationale'') (lit ''**Rationale:** '')) (\<lambda>ra.
     Inr ([lit ''**Translation ('' @ target_language @ lit ''):** '' @ py_str L translated_text]
          @ tm_lines @ bt @ ra))))))"

definition translate ::
  "pylib \<Rightarrow> environ \<Rightarrow> upstream \<Rightarrow> pystr \<Rightarrow> pystr \<Rightarrow> pystr \<Rightarrow> pystr \<Rightarrow> pystr \<Rightarrow> pystr \<Rightarrow> pystr
     \<Rightarrow> pystr \<Rightarrow> int \<Rightarrow> bool \<Rightarrow> http_request list \<Rightarrow> (exn + pystr) \<times> http_request list" where
  "translate L env up text target_language target_language_code source_language
       source_language_code ctx glossary formality max_characters backtranslate sent =
     (case get_client env of
        Inl e \<Rightarrow> (Inl e, sent)
      | Inr client \<Rightarrow>
          await (client_translate client up text target_language (or_none target_language_code)
                   source_language source_language_code (or_none ctx) (or_none glossary)
                   (or_none formality)
                   (if max_characters > 0 then Some max_characters else None)
                   True backtranslate True sent)
            (\<lambda>result. andthen (translate_parts L target_language result)
                         (\<lambda>parts. Inr (join nl parts))))"

subsection \<open>\<open>translate_batch\<close>\<close>

text \<open>The \<open>tm_note\<close> of one batch item.\<close>

definition batch_tm_note :: "pylib \<Rightarrow> json \<Rightarrow> exn + pystr" where
  "batch_tm_note L tm =
     (if \<not> truthy tm then Inr []
      else
        andthen (py_get tm (lit ''score'') (JInt 0)) (\<lambda>sc.
        andthen (py_gt0 sc) (\<lambda>pos.
        if \<not> pos then Inr []
        else
          andthen (py_getitem tm (lit ''score'')) (\<lambda>score.
          andthen (py_format_0f L score) (\<lambda>pct.
          Inr (lit '' (TM '' @ pct @ lit ''%)''))))))"

text \<open>The start of every line of the batch: \<open>{i+1}. "{text}" \<rightarrow> \<close>.\<close>

definition batch_prefix :: "nat \<Rightarrow> pystr \<Rightarrow> pystr" where
  "batch_prefix i text =
     str_nat (i + 1) @ lit ''. '' @ dq @ text @ dq @ lit '' '' @ arrow @ lit '' ''"

text \<open>The body of the \<open>try\<close> block: one upstream call, then the success line.\<close>

definition batch_try ::
  "pylib \<Rightarrow> NativClient \<Rightarrow> upstream \<Rightarrow> pystr \<Rightarrow> pystr \<Rightarrow> pystr \<Rightarrow> pystr \<Rightarrow> pystr \<Rightarrow> pystr
     \<Rightarrow> nat \<Rightarrow> pystr \<Rightarrow> http_request list \<Rightarrow> (exn + pystr) \<times> http_request list" where
  "batch_try L client up target_language target_language_code source_language
       source_language_code ctx formality i text sent =
     await (client_translate client up text target_language (or_none target_language_code)
              source_language source_language_code (or_none ctx) None (or_none formality) None
              True False False sent)
       (\<lambda>result.
          andthen (py_get result (lit ''translated_text'') (JStr [])) (\<lambda>translated.
          andthen (py_get result (lit ''tm_match'') JNull) (\<lambda>tm.
          andthen (batch_tm_note L tm) (\<lambda>tm_note.
          Inr (batch_prefix i text @ dq @ py_str L translated @ dq @ tm_note)))))"

text \<open>One iteration: \<open>except Exception as e\<close> turns the exception into the line of the item.\<close>

definition batch_item ::
  "pylib \<Rightarrow> NativClient \<Rightarrow> upstream \<Rightarrow> pystr \<Rightarrow> pystr \<Rightarrow> pystr \<Rightarrow> pystr \<Rightarrow> pystr \<Rightarrow> pystr
     \<Rightarrow> nat \<Rightarrow> pystr \<Rightarrow> http_request list \<Rightarrow> pystr \<times> http_request list" where
  "batch_item L client up target_language target_language_code source_language
       source_language_code ctx formality i text sent =
     (case batch_try L client up target_language target_language_code source_language
             source_language_code ctx formality i text sent of
        (Inr line, sent') \<Rightarrow> (line, sent')
      | (Inl e, sent') \<Rightarrow> (batch_prefix i text @ lit ''ERROR: '' @ str_exn L e, sent'))"

text \<open>\<open>for i, text in enumerate(texts)\<close>, appending to \<open>results\<close>.\<close>

fun batch_loop ::
  "(nat \<Rightarrow> pystr \<Rightarrow> http_request list \<Rightarrow> pystr \<times> http_request list) \<Rightarrow> nat \<Rightarrow> pystr list
     \<Rightarrow> pystr list \<Rightarrow> http_request list \<Rightarrow> pystr list \<times> http_request list" where
  "batch_loop item i [] results sent = (results, sent)"
| "batch_loop item i (text # texts) results sent =
     (case item i text sent of
        (line, sent') \<Rightarrow> batch_loop item (Suc i) texts (results @ [line]) sent')"

definition batch_header :: "pystr \<Rightarrow> nat \<Rightarrow> pystr" where
  "batch_header target_language n =
     lit ''**Batch translation to '' @ target_language @ lit ''** ('' @ str_nat n
     @ lit '' items):'' @ nl"

definition translate_batch ::
  "pylib \<Rightarrow> environ \<Rightarrow> upstream \<Rightarrow> pystr list \<Rightarrow> pystr \<Rightarrow> pystr \<Rightarrow> pystr \<Rightarrow> pystr \<Rightarrow> pystr
     \<Rightarrow> pystr \<Rightarrow> http_request list \<Rightarrow> (exn + pystr) \<times> http_request list" where
  "translate_batch L env up texts target_language target_language_code source_language
       source_language_code ctx formality sent =
     (case get_client env of
        Inl e \<Rightarrow> (Inl e, sent)
      | Inr client \<Rightarrow>
          (case batch_loop (batch_item L client up target_language target_language_code
                              source_language source_language_code ctx formality)
                  0 texts [] sent of
             (results, sent') \<Rightarrow>
               (Inr (batch_header target_language (length texts) @ join nl results), sent')))"

subsection \<open>\<open>search_translation_memory\<close>\<close>

definition NO_TM_MATCHES :: "pystr \<Rightarrow> pystr" where
  "NO_TM_MATCHES query =
     lit ''No translation memory matches found for '' @ dq @ query @ dq @ lit ''.''"

text \<open>The bullet that the loop appends for one match \<open>m\<close>.\<close>

definition tm_search_line :: "pylib \<Rightarrow> json \<Rightarrow> exn + pystr" where
  "tm_search_line L m =
     andthen (py_getitem m (lit ''score'')) (\<lambda>score.
     andthen (py_format_0f L score) (\<lambda>pct.
     andthen (py_get m (lit ''match_type'') (JStr [])) (\<lambda>match_type.
     andthen (py_getitem m (lit ''source_text'')) (\<lambda>source_text.
     andthen (py_getitem m (lit ''target_text'')) (\<lambda>target_text.
     andthen (py_get m (lit ''information_source'') (JStr (lit ''N/A''))) (\<lambda>information_source.
     Inr (lit ''- **'' @ pct @ lit ''%** ['' @ py_str L match_type @ lit ''] ''
          @ dq @ py_str L source_text @ dq @ lit '' '' @ arrow @ lit '' ''
          @ dq @ py_str L target_text @ dq @ lit '' ''
          @ lit ''(source: '' @ py_str L information_source @ lit '')'')))))))"

definition tm_search_header :: "pystr \<Rightarrow> nat \<Rightarrow> pystr" where
  "tm_search_header query n =
     lit ''**TM Search Results** for '' @ dq @ query @ dq @ lit '' ('' @ str_nat n
     @ lit '' matches):'' @ nl"

text \<open>What \<open>search_translation_memory\<close> does with the upstream result.\<close>

definition tm_search_format :: "pylib \<Rightarrow> pystr \<Rightarrow> json \<Rightarrow> exn + pystr" where
  "tm_search_format L query result =
     andthen (py_get result (lit ''matches'') (JList [])) (\<lambda>matches.
     if \<not> truthy matches then Inr (NO_TM_MATCHES query)
     else
       andthen (py_len matches) (\<lambda>n.
       andthen (py_iter matches) (\<lambda>ms.
       andthen (for_each (tm_search_line L) ms) (\<lambda>bullets.
       Inr (join nl (tm_search_header query n # bullets))))))"

definition search_translation_memory ::
  "pylib \<Rightarrow> environ \<Rightarrow> upstream \<Rightarrow> pystr \<Rightarrow> pystr \<Rightarrow> pystr \<Rightarrow> pyfloat \<Rightarrow> int
     \<Rightarrow> http_request list \<Rightarrow> (exn + pystr) \<times> http_request list" where
  "search_translation_memory L env up query source_language_code target_language_code
       min_score limit sent =
     (case get_client env of
        Inl e \<Rightarrow> (Inl e, sent)
      | Inr client \<Rightarrow>
          await (client_search_tm client up query source_language_code
                   (or_none target_language_code) min_score limit sent)
            (tm_search_format L query))"

subsection \<open>\<open>add_translation_memory_entry\<close>\<close>

definition add_translation_memory_entry ::
  "environ \<Rightarrow> upstream \<Rightarrow> pystr \<Rightarrow> pystr \<Rightarrow> pystr \<Rightarrow> pystr \<Rightarrow> pystr
     \<Rightarrow> http_request list \<Rightarrow> (exn + pystr) \<times> http_request list" where
  "add_translation_memory_entry env up source_text target_text source_language_code
       target_language_code name sent =
     (case get_client env of
        Inl e \<Rightarrow> (Inl e, sent)
      | Inr client \<Rightarrow>
          await (client_add_tm_entry client up source_text target_text source_language_code
                   target_language_code (or_none name) sent)
            (\<lambda>result.
               Inr (lit ''Added TM entry: '' @ dq @ source_text @ dq @ lit '' (''
                    @ source_language_code @ lit '') '' @ arrow @ lit '' '' @ dq @ target_text
                    @ dq @ lit '' ('' @ target_language_code @ lit '')'')))"

subsection \<open>\<open>get_languages\<close>\<close>

definition NO_LANGUAGES :: pystr where
  "NO_LANGUAGES = lit ''No languages configured. Set up languages at https://dashboard.usenativ.com''"

text \<open>The entry that the loop appends for one language \<open>lang\<close>.\<close>

definition language_entry :: "pylib \<Rightarrow> json \<Rightarrow> exn + pystr" where
  "language_entry L lang =
     andthen (py_get lang (lit ''formality'') JNull) (\<lambda>f.
     andthen (py_getitem lang (lit ''language'')) (\<lambda>language.
     andthen (py_getitem lang (lit ''language_code'')) (\<lambda>language_code.
     andthen (py_get lang (lit ''custom_style'') JNull) (\<lambda>cs.
     andthen (if \<not> truthy cs then Inr []
              else andthen (py_getitem lang (lit ''custom_style''))
                     (\<lambda>custom_style. Inr [lit ''  Custom style: '' @ py_str L custom_style]))
       (\<lambda>style.
     Inr (join nl
            ([lit ''- **'' @ py_str L language @ lit ''** ('' @ [96] @ py_str L language_code
              @ [96] @ lit '') '' @ emdash @ lit '' formality: ''
              @ py_str L (if truthy f then f else JStr (lit ''neutral''))]
             @ style)))))))"

definition languages_format :: "pylib \<Rightarrow> json \<Rightarrow> exn + pystr" where
  "languages_format L result =
     andthen (py_get result (lit ''languages'') (JList [])) (\<lambda>languages.
     if \<not> truthy languages then Inr NO_LANGUAGES
     else
       andthen (py_len languages) (\<lambda>n.
       andthen (py_iter languages) (\<lambda>ls.
       andthen (for_each (language_entry L) ls) (\<lambda>entries.
       Inr (join nl ((lit ''**Configured Languages** ('' @ str_nat n @ lit ''):'' @ nl)
                     # entries))))))"

definition get_languages ::
  "pylib \<Rightarrow> environ \<Rightarrow> upstream \<Rightarrow> http_request list \<Rightarrow> (exn + pystr) \<times> http_request list" where
  "get_languages L env up sent =
     (case get_client env of
        Inl e \<Rightarrow> (Inl e, sent)
      | Inr client \<Rightarrow> await (client_get_languages client up sent) (languages_format L))"

subsection \<open>\<open>get_translation_memory_stats\<close>\<close>

definition source_labels :: "(pystr \<times> pystr) list" where
  "source_labels =
     [(lit ''brand_voice'', lit ''Brand Voice''),
      (lit ''phrase_tm'', lit ''Phrase TM''),
      (lit ''phrase_tb'', lit ''Phrase Term Base''),
      (lit ''user_glossary'', lit ''User Glossary''),
      (lit ''approved'', lit ''Approved Translations''),
      (lit ''manual'', lit ''Manual Entries'')]"

definition source_line :: "pylib \<Rightarrow> pystr \<times> json \<Rightarrow> exn + pystr" where
  "source_line L item =
     (case item of (src, counts) \<Rightarrow>
        andthen (py_get counts (lit ''total'') (JInt 0)) (\<lambda>total.
        andthen (py_get counts (lit ''enabled'') (JInt 0)) (\<lambda>enabled.
        Inr (lit ''- '' @ (case map_of source_labels src of Some label \<Rightarrow> label | None \<Rightarrow> src)
             @ lit '': '' @ py_str L total @ lit '' entries ('' @ py_str L enabled
             @ lit '' enabled)''))))"

definition tm_stats_format :: "pylib \<Rightarrow> json \<Rightarrow> exn + pystr" where
  "tm_stats_format L stats =
     andthen (py_get stats (lit ''total'') (JInt 0)) (\<lambda>total.
     andthen (py_get stats (lit ''enabled'') (JInt 0)) (\<lambda>enabled.
     andthen (py_get stats (lit ''disabled'') (JInt 0)) (\<lambda>disabled.
     andthen (py_get stats (lit ''by_source'') (JObj [])) (\<lambda>by_source.
     andthen (if \<not> truthy by_source then Inr []
              else andthen (py_items by_source) (\<lambda>items.
                   andthen (for_each (source_line L) items) (\<lambda>ls.
                   Inr ((nl @ lit ''**By Source:**'') # ls))))
       (\<lambda>sources.
     Inr (join nl
            ([lit ''**Translation Memory Statistics:**'' @ nl,
              lit ''- Total entries: '' @ py_str L total,
              lit ''- Enabled: '' @ py_str L enabled,
              lit ''- Disabled: '' @ py_str L disabled]
             @ sources)))))))"

definition get_translation_memory_stats ::
  "pylib \<Rightarrow> environ \<Rightarrow> upstream \<Rightarrow> http_request list \<Rightarrow> (exn + pystr) \<times> http_request list" where
  "get_translation_memory_stats L env up sent =
     (case get_client env of
        Inl e \<Rightarrow> (Inl e, sent)
      | Inr client \<Rightarrow> await (client_get_tm_stats client up sent) (tm_stats_format L))"

subsection \<open>\<open>get_style_guides\<close>\<close>

definition NO_STYLE_GUIDES :: pystr where
  "NO_STYLE_GUIDES =
     lit ''No custom style guides configured. Create them at https://dashboard.usenativ.com ''
     @ arrow @ lit '' Settings '' @ arrow @ lit '' Style Guides''"

text \<open>
  The content of a guide as it is appended to \<open>lines\<close>: over 500 long, it is cut and
  \<open>"..."\<close> is added.
\<close>

definition guide_content :: "json \<Rightarrow> exn + json" where
  "guide_content content =
     andthen (py_len content) (\<lambda>n.
     if n > 500 then andthen (py_slice_to content 500) (\<lambda>cut. py_add_str cut (lit ''...''))
     else Inr content)"

text \<open>The three items that the loop appends for one guide \<open>g\<close>.\<close>

definition guide_lines :: "pylib \<Rightarrow> json \<Rightarrow> exn + json list" where
  "guide_lines L g =
     andthen (py_get g (lit ''is_enabled'') JNull) (\<lambda>is_enabled.
     andthen (py_get g (lit ''title'') (JStr (lit ''Untitled''))) (\<lambda>title.
     andthen (py_get g (lit ''content'') (JStr [])) (\<lambda>content.
     andthen (guide_content content) (\<lambda>shown.
     Inr [JStr (lit ''### '' @ py_str L title @ lit '' (''
                @ (if truthy is_enabled then lit ''enabled'' else lit ''disabled'') @ lit '')''),
          shown,
          JStr []]))))"

definition style_guides_format :: "pylib \<Rightarrow> json \<Rightarrow> exn + pystr" where
  "style_guides_format L result =
     andthen (py_get result (lit ''guides'') (JList [])) (\<lambda>guides.
     if \<not> truthy guides then Inr NO_STYLE_GUIDES
     else
       andthen (py_len guides) (\<lambda>n.
       andthen (py_iter guides) (\<lambda>gs.
       andthen (for_each (guide_lines L) gs) (\<lambda>ls.
       py_join nl (JStr (lit ''**Style Guides** ('' @ str_nat n @ lit ''):'' @ nl)
                   # concat ls)))))"

definition get_style_guides ::
  "pylib \<Rightarrow> environ \<Rightarrow> upstream \<Rightarrow> http_request list \<Rightarrow> (exn + pystr) \<times> http_request list" where
  "get_style_guides L env up sent =
     (case get_client env of
        Inl e \<Rightarrow> (Inl e, sent)
      | Inr client \<Rightarrow> await (client_list_style_guides client up sent) (style_guides_format L))"

subsection \<open>\<open>get_brand_voice\<close>\<close>

definition NO_BRAND_VOICE :: pystr where
  "NO_BRAND_VOICE =
     lit ''No brand voice prompt configured. Set one up at https://dashboard.usenativ.com ''
     @ arrow @ lit '' Settings '' @ arrow @ lit '' Style Guides''"

definition BRAND_VOICE_HEADER :: pystr where
  "BRAND_VOICE_HEADER = lit ''**Brand Voice Prompt:**'' @ nl @ nl"

definition brand_voice_format :: "pylib \<Rightarrow> json \<Rightarrow> exn + pystr" where
  "brand_voice_format L result =
     andthen (py_get result (lit ''exists'') JNull) (\<lambda>exists.
     if \<not> truthy exists then Inr NO_BRAND_VOICE
     else
       andthen (py_get result (lit ''prompt'') (JStr [])) (\<lambda>prompt.
       andthen (py_len prompt) (\<lambda>n.
       if n > 2000 then
         andthen (py_slice_to prompt 2000) (\<lambda>cut.
         Inr (BRAND_VOICE_HEADER @ py_str L cut @ lit ''...'' @ nl @ nl @ lit ''(Truncated ''
              @ emdash @ lit '' full prompt has '' @ str_nat n @ lit '' characters)''))
       else Inr (BRAND_VOICE_HEADER @ py_str L prompt))))"

definition get_brand_voice ::
  "pylib \<Rightarrow> environ \<Rightarrow> upstream \<Rightarrow> http_request list \<Rightarrow> (exn + pystr) \<times> http_request list" where
  "get_brand_voice L env up sent =
     (case get_client env of
        Inl e \<Rightarrow> (Inl e, sent)
      | Inr client \<Rightarrow> await (client_get_brand_prompt client up sent) (brand_voice_format L))"

section \<open>Resources\<close>

definition resource_languages ::
  "pylib \<Rightarrow> environ \<Rightarrow> upstream \<Rightarrow> http_request list \<Rightarrow> (exn + pystr) \<times> http_request list" where
  "resource_languages L env up sent =
     (case get_client env of
        Inl e \<Rightarrow> (Inl e, sent)
      | Inr client \<Rightarrow> await (client_get_languages client up sent) (\<lambda>result. Inr (fmt_json L result)))"

definition resource_style_guides ::
  "pylib \<Rightarrow> environ \<Rightarrow> upstream \<Rightarrow> http_request list \<Rightarrow> (exn + pystr) \<times> http_request list" where
  "resource_style_guides L env up sent =
     (case get_client env of
        Inl e \<Rightarrow> (Inl e, sent)
      | Inr client \<Rightarrow> await (client_list_style_guides client up sent) (\<lambda>result. Inr (fmt_json L result)))"

definition resource_brand_prompt ::
  "pylib \<Rightarrow> environ \<Rightarrow> upstream \<Rightarrow> http_request list \<Rightarrow> (exn + pystr) \<times> http_request list" where
  "resource_brand_prompt L env up sent =
     (case get_client env of
        Inl e \<Rightarrow> (Inl e, sent)
      | Inr client \<Rightarrow> await (client_get_brand_prompt client up sent) (\<lambda>result. Inr (fmt_json L result)))"

definition resource_tm_stats ::
  "pylib \<Rightarrow> environ \<Rightarrow> upstream \<Rightarrow> http_request list \<Rightarrow> (exn + pystr) \<times> http_request list" where
  "resource_tm_stats L env up sent =
     (case get_client env of
        Inl e \<Rightarrow> (Inl e, sent)
      | Inr client \<Rightarrow> await (client_get_tm_stats client up sent) (\<lambda>result. Inr (fmt_json L result)))"

section \<open>Concrete inputs\<close>

text \<open>
  A library, two environments, a client and an upstream on which the theorems below are
  exercised: \<open>demo_lib\<close> prints an integer score as its decimal digits and gives an
  \<open>HTTPStatusError\<close> a message of two lines, as \<open>httpx\<close> does, and
  \<open>empty_dict_upstream\<close> answers every request with status 200 and an empty dictionary,
  \<open>status_402_upstream\<close> with status 402, \<open>scored_upstream\<close> with a translation
  and a translation-memory match of the given score, and \<open>matches_upstream\<close> with the
  given list of search matches (\<open>tm_hit\<close> is one such match) and \<open>languages_upstream\<close>
  with the given list of languages; \<open>second_fails_upstream\<close> lets the second request of a
  run time out and answers the others with a translation, and \<open>status_500_upstream\<close>
  answers every request with status 500.
\<close>

definition demo_lib :: pylib where
  "demo_lib = \<lparr> format_0f = (\<lambda>x. case x of JInt i \<Rightarrow> str_int i | _ \<Rightarrow> lit ''n''),
                repr = (\<lambda>x. lit ''obj''),
                status_message = (\<lambda>code u. lit ''Error '' @ str_nat code @ lit '' for url '' @ u
                                   @ nl @ lit ''For more information check the status''),
                dumps = (\<lambda>x. lit ''json'') \<rparr>"

definition demo_env :: environ where
  "demo_env = [lit ''NATIV_API_KEY'' \<mapsto> lit ''key'']"

definition no_key_env :: environ where
  "no_key_env = Map.empty"

definition demo_client :: NativClient where
  "demo_client = NativClient_init (lit ''key'') None"

definition empty_dict_upstream :: upstream where
  "empty_dict_upstream = (\<lambda>sent req. Response 200 (Inr (JObj [])))"

definition status_402_upstream :: upstream where
  "status_402_upstream = (\<lambda>sent req. Response 402 (Inl []))"


definition matches_upstream :: "json list \<Rightarrow> upstream" where
  "matches_upstream ms = (\<lambda>sent req. Response 200 (Inr (JObj [(lit ''matches'', JList ms)])))"

definition tm_hit :: "int \<Rightarrow> pystr \<Rightarrow> pystr \<Rightarrow> json" where
  "tm_hit score source target =
     JObj [(lit ''score'', JInt score), (lit ''match_type'', JStr (lit ''fuzzy'')),
           (lit ''source_text'', JStr source), (lit ''target_text'', JStr target)]"

definition second_fails_upstream :: upstream where
  "second_fails_upstream =
     (\<lambda>sent req. if length sent = 1 then NoResponse (lit ''timed out'')
                  else Response 200 (Inr (JObj [(lit ''translated_text'', JStr (lit ''ok''))])))"

definition status_500_upstream :: upstream where
  "status_500_upstream = (\<lambda>sent req. Response 500 (Inl []))"

definition languages_upstream :: "json list \<Rightarrow> upstream" where
  "languages_upstream ls = (\<lambda>sent req. Response 200 (Inr (JObj [(lit ''languages'', JList ls)])))"

section \<open>Requests and calls used in the statements\<close>

text \<open>
  The request that \<open>NativClient.translate\<close> hands to \<open>_request\<close> for a given body: a
  \<open>POST\<close> to \<open>/text/culturalize\<close> with the client's headers and no query parameters.
\<close>

definition translate_request ::
  "NativClient \<Rightarrow> (pystr \<times> json) list \<Rightarrow> http_request" where
  "translate_request c body =
     \<lparr> http_method = lit ''POST'', url = base_url c @ lit ''/text/culturalize'',
       req_headers = headers c, json_body = Some body, params = None \<rparr>"

text \<open>
  The call \<open>translate(text, target_language)\<close>: every optional parameter takes the default
  of the signature.
\<close>

definition translate_default_call ::
  "pylib \<Rightarrow> environ \<Rightarrow> upstream \<Rightarrow> pystr \<Rightarrow> pystr \<Rightarrow> http_request list
     \<Rightarrow> (exn + pystr) \<times> http_request list" where
  "translate_default_call L env up text target_language sent =
     translate L env up text target_language [] (lit ''English'') (lit ''en'') [] [] [] 0 False sent"

text \<open>
  The request that one item of \<open>translate_batch\<close> sends: the body of
  \<open>NativClient.translate\<close> with TM info on, back-translation and rationale off, and no
  glossary or character limit.
\<close>

definition batch_request ::
  "NativClient \<Rightarrow> pystr \<Rightarrow> pystr \<Rightarrow> pystr \<Rightarrow> pystr \<Rightarrow> pystr \<Rightarrow> pystr \<Rightarrow> pystr \<Rightarrow> http_request" where
  "batch_request c target_language target_language_code source_language source_language_code
       ctx formality text =
     translate_request c
       (translate_body text target_language (or_none target_language_code) source_language
          source_language_code (or_none ctx) None (or_none formality) None True False False)"

text \<open>The start of the match line that \<open>translate\<close> appends.\<close>

definition TM_MATCH_LABEL :: pystr where
  "TM_MATCH_LABEL = nl @ lit ''**TM Match:** ''"

section \<open>Basic facts\<close>

lemma andthen_Inl [simp]: "andthen (Inl e) f = Inl e"
  by (simp add: andthen_def)

lemma andthen_Inr [simp]: "andthen (Inr x) f = f x"
  by (simp add: andthen_def)

lemma in_float_range_percent: "\<bar>i\<bar> \<le> 100 \<Longrightarrow> in_float_range i"
  by (simp add: in_float_range_def)

lemma py_format_0f_number:
  assumes "(\<exists>b. sc = JBool b) \<or> (\<exists>i. sc = JInt i \<and> in_float_range i) \<or> (\<exists>x. sc = JFloat x)"
  shows "py_format_0f L sc = Inr (format_0f L sc)"
  using assms by auto

lemma get_client_demo: "get_client demo_env = Inr demo_client"
  by (simp add: get_client_def demo_env_def demo_client_def lit_def)

lemma await_simp [simp]: "await r f = (andthen (fst r) f, snd r)"
  by (simp add: await_def)

lemma join_items_strs: "join_items i (map JStr ss) = Inr ss"
  by (induction ss arbitrary: i) simp_all

lemma py_join_strs: "py_join sep (map JStr ss) = Inr (join sep ss)"
  by (simp add: py_join_def join_items_strs)

lemma py_join_cons_strs: "py_join sep (JStr h # map JStr ss) = Inr (join sep (h # ss))"
  using py_join_strs [of sep "h # ss"] by simp

lemma snd_client_request:
  "snd (client_request c up meth path body ps sent)
     = sent @ [\<lparr> http_method = meth, url = base_url c @ path, req_headers = headers c,
                 json_body = body, params = ps \<rparr>]"
  by (simp add: client_request_def Let_def)

lemma snd_client_translate:
  "snd (client_translate c up text language language_code source_language source_language_code
          ctx glossary formality max_characters include_tm_info backtranslate include_rationale sent)
     = sent @ [translate_request c
                (translate_body text language language_code source_language source_language_code
                   ctx glossary formality max_characters include_tm_info backtranslate
                   include_rationale)]"
  by (simp add: client_translate_def snd_client_request translate_request_def)

lemma translate_sends:
  assumes "get_client env = Inr client"
  shows "snd (translate L env up text target_language target_language_code source_language
               source_language_code ctx glossary formality max_characters backtranslate sent)
     = sent @ [translate_request client
                (translate_body text target_language (or_none target_language_code)
                   source_language source_language_code (or_none ctx) (or_none glossary)
                   (or_none formality) (if max_characters > 0 then Some max_characters else None)
                   True backtranslate True)]"
  using assms by (simp add: translate_def snd_client_translate)

lemma andthen_eq_Inr: "andthen m f = Inr y \<longleftrightarrow> (\<exists>x. m = Inr x \<and> f x = Inr y)"
  by (cases m) simp_all

lemma for_each_Cons_Inr:
  "for_each f (x # xs) = Inr ys
     \<longleftrightarrow> (\<exists>y zs. ys = y # zs \<and> f x = Inr y \<and> for_each f xs = Inr zs)"
  by (auto simp: andthen_eq_Inr)

lemma for_each_Inr_iff:
  "for_each f xs = Inr ys \<longleftrightarrow> list_all2 (\<lambda>x y. f x = Inr y) xs ys"
proof (induction xs arbitrary: ys)
  case Nil
  then show ?case by auto
next
  case (Cons x xs)
  have "for_each f (x # xs) = Inr ys
          \<longleftrightarrow> (\<exists>y zs. ys = y # zs \<and> f x = Inr y \<and> for_each f xs = Inr zs)"
    by (rule for_each_Cons_Inr)
  also have "\<dots> \<longleftrightarrow> (\<exists>y zs. ys = y # zs \<and> f x = Inr y \<and> list_all2 (\<lambda>x y. f x = Inr y) xs zs)"
    by (simp only: Cons.IH)
  also have "\<dots> \<longleftrightarrow> list_all2 (\<lambda>x y. f x = Inr y) (x # xs) ys"
    by (simp only: list_all2_Cons1)
  finally show ?case .
qed

lemma for_each_total:
  assumes "\<forall>x \<in> set xs. \<exists>y. f x = Inr y"
  shows "\<exists>ys. for_each f xs = Inr ys"
  using assms
proof (induction xs)
  case Nil
  then show ?case by simp
next
  case (Cons x xs)
  then obtain y ys where "f x = Inr y" and "for_each f xs = Inr ys" by auto
  then show ?case by simp
qed

section \<open>\<open>get_brand_voice\<close>: truncation at 2000 characters\<close>

text \<open>
  C7. When the credential is configured and the upstream answers with a dictionary whose
  \<open>exists\<close> is true and whose \<open>prompt\<close> is a string, \<open>get_brand_voice\<close> renders a prompt of
  2001 or more characters as the header, exactly the first 2000 characters, the ellipsis
  \<open>...\<close> and a suffix stating the full character count, and renders a prompt of at most
  2000 characters in full after the header. The output is a function of the upstream
  answer alone: a second run that gets the same answer returns the same string.
\<close>

theorem get_brand_voice_truncation:
  assumes "get_client env = Inr client"
    and "fst (client_get_brand_prompt client up sent) = Inr (JObj r)"
    and "map_of r (lit ''exists'') = Some e" and "truthy e"
    and "map_of r (lit ''prompt'') = Some (JStr prompt)"
  shows "fst (get_brand_voice L env up sent) =
           Inr (if 2001 \<le> length prompt
                then BRAND_VOICE_HEADER @ take 2000 prompt @ lit ''...'' @ nl @ nl
                     @ lit ''(Truncated '' @ emdash @ lit '' full prompt has ''
                     @ str_nat (length prompt) @ lit '' characters)''
                else BRAND_VOICE_HEADER @ prompt)
         \<and> (\<forall>up' sent'. fst (client_get_brand_prompt client up' sent')
                           = fst (client_get_brand_prompt client up sent)
               \<longrightarrow> fst (get_brand_voice L env up' sent') = fst (get_brand_voice L env up sent))"
  using assms
  by (simp add: get_brand_voice_def brand_voice_format_def)

theorem get_brand_voice_truncation_witness:
  "fst (get_brand_voice demo_lib demo_env
          (\<lambda>sent req. Response 200 (Inr (JObj [(lit ''exists'', JBool True),
                                               (lit ''prompt'', JStr (replicate 2001 97))])))
          [])
   = Inr (BRAND_VOICE_HEADER @ replicate 2000 97 @ lit ''...'' @ nl @ nl
          @ lit ''(Truncated '' @ emdash @ lit '' full prompt has 2001 characters)'')"
proof -
  let ?r = "[(lit ''exists'', JBool True), (lit ''prompt'', JStr (replicate 2001 97))]"
  let ?up = "\<lambda>sent req. Response 200 (Inr (JObj ?r))"
  have resp: "fst (client_get_brand_prompt demo_client ?up []) = Inr (JObj ?r)"
    by (simp add: client_get_brand_prompt_def client_request_def is_success_def)
  have ex: "map_of ?r (lit ''exists'') = Some (JBool True)"
    by simp
  have pr: "map_of ?r (lit ''prompt'') = Some (JStr (replicate 2001 97))"
    by (simp add: lit_def)
  have n: "str_nat 2001 = lit ''2001''"
    by (simp add: str_nat.simps lit_def)
  show ?thesis
    using get_brand_voice_truncation [OF get_client_demo resp ex _ pr, of demo_lib] n
    by (simp add: lit_def)
qed

section \<open>\<open>get_style_guides\<close>: truncation at 500 characters\<close>

lemma guide_content_str:
  "guide_content (JStr c) = Inr (JStr (if 501 \<le> length c then take 500 c @ lit ''...'' else c))"
  by (simp add: guide_content_def)

lemma guide_lines_str:
  assumes "map_of kvs (lit ''content'') = Some (JStr c)"
  shows "\<exists>t. guide_lines L (JObj kvs)
            = Inr (map JStr [t, if 501 \<le> length c then take 500 c @ lit ''...'' else c, []])"
  using assms by (simp add: guide_lines_def guide_content_str)

lemma for_each_guide_lines:
  assumes "list_all2 (\<lambda>g c. \<exists>kvs. g = JObj kvs \<and> map_of kvs (lit ''content'') = Some (JStr c)) gs cs"
  shows "\<exists>ts. length ts = length gs \<and>
           for_each (guide_lines L) gs
             = Inr (map (\<lambda>(t, c). map JStr [t, if 501 \<le> length c then take 500 c @ lit ''...'' else c, []])
                      (zip ts cs))"
  using assms
proof (induction gs cs rule: list_all2_induct)
  case Nil
  then show ?case by simp
next
  case (Cons g gs c cs)
  then obtain kvs where g: "g = JObj kvs" and c: "map_of kvs (lit ''content'') = Some (JStr c)"
    by blast
  from guide_lines_str [OF c, of L] obtain t where
    t: "guide_lines L (JObj kvs)
          = Inr (map JStr [t, if 501 \<le> length c then take 500 c @ lit ''...'' else c, []])"
    by blast
  from Cons.IH obtain ts where ts: "length ts = length gs"
    and fe: "for_each (guide_lines L) gs
             = Inr (map (\<lambda>(t, c). map JStr [t, if 501 \<le> length c then take 500 c @ lit ''...'' else c, []])
                      (zip ts cs))"
    by blast
  have "length (t # ts) = length (g # gs)" using ts by simp
  moreover have "for_each (guide_lines L) (g # gs)
             = Inr (map (\<lambda>(t, c). map JStr [t, if 501 \<le> length c then take 500 c @ lit ''...'' else c, []])
                      (zip (t # ts) (c # cs)))"
    using g t fe by simp
  ultimately show ?case by blast
qed

lemma concat_map_JStr:
  "concat (map (\<lambda>(t, c). map JStr (f t c)) xs) = map JStr (concat (map (\<lambda>(t, c). f t c) xs))"
  by (induction xs) auto

text \<open>
  C8. When the credential is configured and the upstream answers with a non-empty list of
  guides, each a dictionary whose \<open>content\<close> is a string, \<open>get_style_guides\<close> renders for
  every guide a heading, the content body and an empty line, in order; a body of 501 or
  more characters is rendered as exactly its first 500 characters followed by the three
  characters \<open>...\<close>, and a body of at most 500 characters is rendered unmodified.
\<close>

theorem get_style_guides_truncation:
  assumes "get_client env = Inr client"
    and "fst (client_list_style_guides client up sent) = Inr (JObj r)"
    and "map_of r (lit ''guides'') = Some (JList gs)" and "gs \<noteq> []"
    and "list_all2 (\<lambda>g c. \<exists>kvs. g = JObj kvs \<and> map_of kvs (lit ''content'') = Some (JStr c)) gs cs"
  shows "\<exists>ts. length ts = length gs \<and>
           fst (get_style_guides L env up sent)
             = Inr (join nl ((lit ''**Style Guides** ('' @ str_nat (length gs) @ lit ''):'' @ nl)
                    # concat (map (\<lambda>(t, c). [t, if 501 \<le> length c then take 500 c @ lit ''...'' else c, []])
                                (zip ts cs))))"
proof -
  from for_each_guide_lines [OF assms(5), of L] obtain ts where ts: "length ts = length gs"
    and fe: "for_each (guide_lines L) gs
             = Inr (map (\<lambda>(t, c). map JStr [t, if 501 \<le> length c then take 500 c @ lit ''...'' else c, []])
                      (zip ts cs))"
    by blast
  let ?f = "\<lambda>t c. [t, if 501 \<le> length c then take 500 c @ lit ''...'' else c, []]"
  have cc: "concat (map (\<lambda>(t, c). map JStr (?f t c)) (zip ts cs))
              = map JStr (concat (map (\<lambda>(t, c). ?f t c) (zip ts cs)))"
    by (rule concat_map_JStr)
  have "fst (get_style_guides L env up sent)
          = py_join nl (map JStr ((lit ''**Style Guides** ('' @ str_nat (length gs) @ lit ''):'' @ nl)
                    # concat (map (\<lambda>(t, c). ?f t c) (zip ts cs))))"
    using assms(1-4) fe cc by (simp add: get_style_guides_def style_guides_format_def)
  then show ?thesis using ts by (auto simp: py_join_cons_strs)
qed

theorem get_style_guides_truncation_witness:
  "\<exists>ts. length ts = 2 \<and>
     fst (get_style_guides demo_lib demo_env
            (\<lambda>sent req. Response 200 (Inr (JObj [(lit ''guides'',
                 JList [JObj [(lit ''title'', JStr (lit ''Tone'')),
                              (lit ''content'', JStr (replicate 501 97))],
                        JObj [(lit ''content'', JStr (replicate 500 98))]])])))
            [])
     = Inr (join nl ((lit ''**Style Guides** (2):'' @ nl)
              # concat (map (\<lambda>(t, c). [t, c, []])
                          (zip ts [replicate 500 97 @ lit ''...'', replicate 500 98]))))"
proof -
  let ?g1 = "JObj [(lit ''title'', JStr (lit ''Tone'')), (lit ''content'', JStr (replicate 501 97))]"
  let ?g2 = "JObj [(lit ''content'', JStr (replicate 500 98))]"
  let ?r = "[(lit ''guides'', JList [?g1, ?g2])]"
  let ?up = "\<lambda>sent req. Response 200 (Inr (JObj ?r))"
  have resp: "fst (client_list_style_guides demo_client ?up []) = Inr (JObj ?r)"
    by (simp add: client_list_style_guides_def client_request_def is_success_def)
  have gs: "map_of ?r (lit ''guides'') = Some (JList [?g1, ?g2])"
    by simp
  have ne: "[?g1, ?g2] \<noteq> []"
    by simp
  have cs: "list_all2 (\<lambda>g c. \<exists>kvs. g = JObj kvs \<and> map_of kvs (lit ''content'') = Some (JStr c))
              [?g1, ?g2] [replicate 501 97, replicate 500 98]"
    by (simp add: lit_def)
  have n: "str_nat (length [?g1, ?g2]) = lit ''2''"
    by (simp add: str_nat.simps lit_def)
  from get_style_guides_truncation [OF get_client_demo resp gs ne cs, of demo_lib]
  obtain ts where len: "length ts = length [?g1, ?g2]"
    and out: "fst (get_style_guides demo_lib demo_env ?up [])
      = Inr (join nl ((lit ''**Style Guides** ('' @ str_nat (length [?g1, ?g2]) @ lit ''):'' @ nl)
             # concat (map (\<lambda>(t, c). [t, if 501 \<le> length c then take 500 c @ lit ''...'' else c, []])
                         (zip ts [replicate 501 97, replicate 500 98]))))"
    by blast
  from len obtain a b where ts: "ts = [a, b]"
    by (auto simp: length_Suc_conv)
  show ?thesis
    unfolding out n ts
    by (rule exI [of _ "[a, b]"]) (simp add: lit_def)
qed

section \<open>Status 402\<close>

lemma client_request_402:
  assumes "\<forall>req. \<exists>b. up sent req = Response 402 b"
  shows "fst (client_request c up meth path body ps sent) = Inl (RuntimeError INSUFFICIENT_CREDITS)"
proof -
  let ?req = "\<lparr> http_method = meth, url = base_url c @ path, req_headers = headers c,
                 json_body = body, params = ps \<rparr>"
  from assms obtain b where "up sent ?req = Response 402 b" by blast
  then show ?thesis by (simp add: client_request_def)
qed

lemma client_request_other_status:
  assumes "up sent \<lparr> http_method = meth, url = base_url c @ path, req_headers = headers c,
                      json_body = body, params = ps \<rparr> = Response status b"
    and "status \<noteq> 402" and "\<not> is_success status"
  shows "fst (client_request c up meth path body ps sent)
           = Inl (HTTPStatusError status (base_url c @ path))"
  using assms by (simp add: client_request_def)

text \<open>
  C2. When the upstream answers status 402, each of the nine operations of the client
  (translate, get_languages, search_tm, list_tm_entries, add_tm_entry, get_tm_stats,
  list_style_guides, get_brand_prompt, get_combined_prompt) fails with one and the same
  error, the \<open>RuntimeError\<close> whose message is the insufficient-credits text; that error is
  never the \<open>HTTPStatusError\<close> raised for the other statuses outside 200..299, and its
  message ends in the remediation hint \<open>Top up at https://dashboard.usenativ.com\<close>.
\<close>

theorem status_402_is_insufficient_credits:
  assumes "\<forall>req. \<exists>b. up sent req = Response 402 b"
  shows "fst (client_translate c up text language language_code source_language
                source_language_code ctx glossary formality max_characters include_tm_info
                backtranslate include_rationale sent) = Inl (RuntimeError INSUFFICIENT_CREDITS)
       \<and> fst (client_get_languages c up sent) = Inl (RuntimeError INSUFFICIENT_CREDITS)
       \<and> fst (client_search_tm c up query source_lang target_lang score_cutoff limit sent)
           = Inl (RuntimeError INSUFFICIENT_CREDITS)
       \<and> fst (client_list_tm_entries c up source_lang' target_lang' search limit' offset sent)
           = Inl (RuntimeError INSUFFICIENT_CREDITS)
       \<and> fst (client_add_tm_entry c up source_text target_text source_code target_code
                 source_name sent) = Inl (RuntimeError INSUFFICIENT_CREDITS)
       \<and> fst (client_get_tm_stats c up sent) = Inl (RuntimeError INSUFFICIENT_CREDITS)
       \<and> fst (client_list_style_guides c up sent) = Inl (RuntimeError INSUFFICIENT_CREDITS)
       \<and> fst (client_get_brand_prompt c up sent) = Inl (RuntimeError INSUFFICIENT_CREDITS)
       \<and> fst (client_get_combined_prompt c up sent) = Inl (RuntimeError INSUFFICIENT_CREDITS)
       \<and> (\<forall>code u. RuntimeError INSUFFICIENT_CREDITS \<noteq> HTTPStatusError code u)
       \<and> (\<exists>m. INSUFFICIENT_CREDITS = m @ lit ''Top up at https://dashboard.usenativ.com'')"
  using assms
  by (simp add: client_request_402 client_translate_def client_get_languages_def client_search_tm_def
        client_list_tm_entries_def client_add_tm_entry_def client_get_tm_stats_def
        client_list_style_guides_def client_get_brand_prompt_def client_get_combined_prompt_def
        INSUFFICIENT_CREDITS_def lit_def)


theorem status_402_is_insufficient_credits_witness:
  "fst (client_get_languages demo_client status_402_upstream [])
     = Inl (RuntimeError INSUFFICIENT_CREDITS)
   \<and> fst (client_add_tm_entry demo_client status_402_upstream (lit ''Hello'') (lit ''Bonjour'')
            (lit ''en'') (lit ''fr'') None [])
     = Inl (RuntimeError INSUFFICIENT_CREDITS)"
proof -
  have h: "\<forall>req. \<exists>b. status_402_upstream [] req = Response 402 b"
    by (simp add: status_402_upstream_def)
  show ?thesis
    using status_402_is_insufficient_credits
            [where up = status_402_upstream and sent = "[]" and c = demo_client, OF h]
    by simp
qed

section \<open>The request body of \<open>translate\<close>\<close>

lemma body_keys:
  "fst ` set (translate_body text language language_code source_language source_language_code
                ctx glossary formality max_characters include_tm_info backtranslate include_rationale)
   = {lit ''text'', lit ''language'', lit ''source_language'', lit ''source_language_code'',
      lit ''tool'', lit ''include_tm_info'', lit ''backtranslate'', lit ''include_rationale''}
     \<union> fst ` set (opt_key (lit ''language_code'') language_code)
     \<union> fst ` set (opt_key (lit ''context'') ctx)
     \<union> fst ` set (opt_key (lit ''glossary'') glossary)
     \<union> fst ` set (opt_key (lit ''formality'') formality)
     \<union> (case max_characters of None \<Rightarrow> {} | Some n \<Rightarrow> {lit ''max_characters''})"
  by (auto simp: translate_body_def split: option.splits)

lemma opt_key_or_none_empty [simp]: "opt_key k (or_none []) = []"
  by (simp add: opt_key_def or_none_def)

text \<open>
  C3. When the credential is configured, \<open>translate\<close> sends exactly one request, and its
  body has no key \<open>language_code\<close> when \<open>target_language_code\<close> is the empty string, no key
  \<open>context\<close>, \<open>glossary\<close> or \<open>formality\<close> when that parameter is the empty string, and no
  key \<open>max_characters\<close> when \<open>max_characters\<close> is 0: the key is absent from the body, so it
  carries neither a null nor an empty string.
\<close>

theorem translate_omits_unset_optionals:
  assumes "get_client env = Inr client"
  shows "\<exists>body.
      snd (translate L env up text target_language target_language_code source_language
             source_language_code ctx glossary formality max_characters backtranslate sent)
        = sent @ [translate_request client body]
    \<and> (target_language_code = [] \<longrightarrow> lit ''language_code'' \<notin> fst ` set body)
    \<and> (ctx = [] \<longrightarrow> lit ''context'' \<notin> fst ` set body)
    \<and> (glossary = [] \<longrightarrow> lit ''glossary'' \<notin> fst ` set body)
    \<and> (formality = [] \<longrightarrow> lit ''formality'' \<notin> fst ` set body)
    \<and> (max_characters = 0 \<longrightarrow> lit ''max_characters'' \<notin> fst ` set body)"
proof -
  let ?body = "translate_body text target_language (or_none target_language_code)
                 source_language source_language_code (or_none ctx) (or_none glossary)
                 (or_none formality) (if max_characters > 0 then Some max_characters else None)
                 True backtranslate True"
  have k1: "target_language_code = [] \<longrightarrow> lit ''language_code'' \<notin> fst ` set ?body"
    unfolding body_keys by (simp add: opt_key_def or_none_def lit_def)
  have k2: "ctx = [] \<longrightarrow> lit ''context'' \<notin> fst ` set ?body"
    unfolding body_keys by (simp add: opt_key_def or_none_def lit_def)
  have k3: "glossary = [] \<longrightarrow> lit ''glossary'' \<notin> fst ` set ?body"
    unfolding body_keys by (simp add: opt_key_def or_none_def lit_def)
  have k4: "formality = [] \<longrightarrow> lit ''formality'' \<notin> fst ` set ?body"
    unfolding body_keys by (simp add: opt_key_def or_none_def lit_def)
  have k5: "max_characters = 0 \<longrightarrow> lit ''max_characters'' \<notin> fst ` set ?body"
    unfolding body_keys by (simp add: opt_key_def or_none_def lit_def)
  show ?thesis
    using translate_sends [OF assms] k1 k2 k3 k4 k5 by blast
qed


theorem translate_omits_unset_optionals_witness:
  "\<exists>body.
      snd (translate demo_lib demo_env empty_dict_upstream (lit ''Hello'') (lit ''French'') []
             (lit ''English'') (lit ''en'') [] [] [] 0 False [])
        = [translate_request demo_client body]
    \<and> lit ''language_code'' \<notin> fst ` set body
    \<and> lit ''context'' \<notin> fst ` set body
    \<and> lit ''glossary'' \<notin> fst ` set body
    \<and> lit ''formality'' \<notin> fst ` set body
    \<and> lit ''max_characters'' \<notin> fst ` set body"
  using translate_omits_unset_optionals [OF get_client_demo, of demo_lib empty_dict_upstream
          "lit ''Hello''" "lit ''French''" "[]" "lit ''English''" "lit ''en''" "[]" "[]" "[]" 0 False "[]"]
  by simp

text \<open>
  C10. When the credential is configured, the body of the one request that \<open>translate\<close>
  sends always has \<open>include_tm_info\<close> and \<open>include_rationale\<close> set to true, whatever the
  arguments: \<open>translate\<close> has no parameter for either. \<open>backtranslate\<close> carries the
  caller's argument, and it is false in the call that leaves the optional parameters at
  their defaults.
\<close>

theorem translate_always_requests_tm_info_and_rationale:
  assumes "get_client env = Inr client"
  shows "(\<exists>body.
      snd (translate L env up text target_language target_language_code source_language
             source_language_code ctx glossary formality max_characters backtranslate sent)
        = sent @ [translate_request client body]
    \<and> map_of body (lit ''include_tm_info'') = Some (JBool True)
    \<and> map_of body (lit ''include_rationale'') = Some (JBool True)
    \<and> map_of body (lit ''backtranslate'') = Some (JBool backtranslate))
  \<and> (\<exists>body.
      snd (translate_default_call L env up text target_language sent)
        = sent @ [translate_request client body]
    \<and> map_of body (lit ''backtranslate'') = Some (JBool False))"
proof -
  have m: "\<And>t l lc s sc c g f m b.
      map_of (translate_body t l lc s sc c g f m True b True) (lit ''include_tm_info'') = Some (JBool True)
    \<and> map_of (translate_body t l lc s sc c g f m True b True) (lit ''include_rationale'') = Some (JBool True)
    \<and> map_of (translate_body t l lc s sc c g f m True b True) (lit ''backtranslate'') = Some (JBool b)"
    by (simp add: translate_body_def lit_def)
  have a: "snd (translate L env up text target_language target_language_code source_language
             source_language_code ctx glossary formality max_characters backtranslate sent)
        = sent @ [translate_request client
                (translate_body text target_language (or_none target_language_code)
                   source_language source_language_code (or_none ctx) (or_none glossary)
                   (or_none formality) (if max_characters > 0 then Some max_characters else None)
                   True backtranslate True)]"
    by (rule translate_sends [OF assms])
  have b: "snd (translate_default_call L env up text target_language sent)
        = sent @ [translate_request client
                (translate_body text target_language (or_none [])
                   (lit ''English'') (lit ''en'') (or_none []) (or_none [])
                   (or_none []) (if (0::int) > 0 then Some 0 else None)
                   True False True)]"
    unfolding translate_default_call_def by (rule translate_sends [OF assms])
  show ?thesis
    using a b m by blast
qed

theorem translate_always_requests_tm_info_and_rationale_witness:
  "(\<exists>body.
      snd (translate demo_lib demo_env empty_dict_upstream (lit ''Hello'') (lit ''French'') []
             (lit ''English'') (lit ''en'') [] [] [] 0 True [])
        = [translate_request demo_client body]
    \<and> map_of body (lit ''include_tm_info'') = Some (JBool True)
    \<and> map_of body (lit ''include_rationale'') = Some (JBool True)
    \<and> map_of body (lit ''backtranslate'') = Some (JBool True))
  \<and> (\<exists>body.
      snd (translate_default_call demo_lib demo_env empty_dict_upstream (lit ''Hello'')
             (lit ''French'') [])
        = [translate_request demo_client body]
    \<and> map_of body (lit ''backtranslate'') = Some (JBool False))"
  using translate_always_requests_tm_info_and_rationale [OF get_client_demo, of demo_lib
          empty_dict_upstream "lit ''Hello''" "lit ''French''" "[]" "lit ''English''" "lit ''en''"
          "[]" "[]" "[]" 0 True "[]"]
  by simp


section \<open>The credential\<close>

lemma get_client_missing:
  assumes "env (lit ''NATIV_API_KEY'') = None \<or> env (lit ''NATIV_API_KEY'') = Some []"
  shows "get_client env = Inl (RuntimeError MISSING_API_KEY)"
  using assms by (auto simp: get_client_def)

text \<open>
  C4, as amended. A missing or empty \<open>NATIV_API_KEY\<close> is an error that every handler (the
  eight tools and the four resources) raises itself, each time it is invoked, as the
  \<open>RuntimeError\<close> of \<open>_get_client\<close>, and before any request is sent upstream. When the key
  is set, \<open>_get_client\<close> passes the key and the optional base URL read from the environment
  into the constructor of the client, whose \<open>X-API-Key\<close> header carries the key on the
  request that the handler then sends.
\<close>

theorem missing_api_key_fails_in_each_handler:
  "(env (lit ''NATIV_API_KEY'') = None \<or> env (lit ''NATIV_API_KEY'') = Some [] \<longrightarrow>
      translate L env up text target_language target_language_code source_language
        source_language_code ctx glossary formality max_characters backtranslate sent
        = (Inl (RuntimeError MISSING_API_KEY), sent)
    \<and> translate_batch L env up texts target_language target_language_code source_language
        source_language_code ctx formality sent = (Inl (RuntimeError MISSING_API_KEY), sent)
    \<and> search_translation_memory L env up query source_language_code target_language_code
        min_score limit sent = (Inl (RuntimeError MISSING_API_KEY), sent)
    \<and> add_translation_memory_entry env up source_text target_text source_language_code
        target_language_code name sent = (Inl (RuntimeError MISSING_API_KEY), sent)
    \<and> get_languages L env up sent = (Inl (RuntimeError MISSING_API_KEY), sent)
    \<and> get_translation_memory_stats L env up sent = (Inl (RuntimeError MISSING_API_KEY), sent)
    \<and> get_style_guides L env up sent = (Inl (RuntimeError MISSING_API_KEY), sent)
    \<and> get_brand_voice L env up sent = (Inl (RuntimeError MISSING_API_KEY), sent)
    \<and> resource_languages L env up sent = (Inl (RuntimeError MISSING_API_KEY), sent)
    \<and> resource_style_guides L env up sent = (Inl (RuntimeError MISSING_API_KEY), sent)
    \<and> resource_brand_prompt L env up sent = (Inl (RuntimeError MISSING_API_KEY), sent)
    \<and> resource_tm_stats L env up sent = (Inl (RuntimeError MISSING_API_KEY), sent))
   \<and> (\<forall>api_key. env (lit ''NATIV_API_KEY'') = Some api_key \<and> api_key \<noteq> [] \<longrightarrow>
         get_client env = Inr (NativClient_init api_key (env (lit ''NATIV_API_URL'')))
       \<and> snd (get_languages L env up sent)
           = sent @ [\<lparr> http_method = lit ''GET'',
                        url = base_url (NativClient_init api_key (env (lit ''NATIV_API_URL'')))
                              @ lit ''/user/languages'',
                        req_headers = headers (NativClient_init api_key (env (lit ''NATIV_API_URL''))),
                        json_body = None, params = None \<rparr>]
       \<and> map_of (headers (NativClient_init api_key (env (lit ''NATIV_API_URL'')))) (lit ''X-API-Key'')
           = Some api_key)"
proof -
  have a: "env (lit ''NATIV_API_KEY'') = None \<or> env (lit ''NATIV_API_KEY'') = Some [] \<Longrightarrow>
      get_client env = Inl (RuntimeError MISSING_API_KEY)"
    by (rule get_client_missing)
  have b: "\<And>api_key. env (lit ''NATIV_API_KEY'') = Some api_key \<Longrightarrow> api_key \<noteq> [] \<Longrightarrow>
      get_client env = Inr (NativClient_init api_key (env (lit ''NATIV_API_URL'')))"
    by (simp add: get_client_def)
  have c: "\<And>api_key u. map_of (headers (NativClient_init api_key u)) (lit ''X-API-Key'') = Some api_key"
    by (simp add: NativClient_init_def)
  show ?thesis
    using a b c
    by (simp add: translate_def translate_batch_def search_translation_memory_def
        add_translation_memory_entry_def get_languages_def get_translation_memory_stats_def
        get_style_guides_def get_brand_voice_def resource_languages_def
        resource_style_guides_def resource_brand_prompt_def resource_tm_stats_def
        client_get_languages_def snd_client_request)
qed

theorem missing_api_key_fails_in_each_handler_witness:
  "get_languages demo_lib no_key_env empty_dict_upstream [] = (Inl (RuntimeError MISSING_API_KEY), [])
   \<and> get_brand_voice demo_lib no_key_env empty_dict_upstream [] = (Inl (RuntimeError MISSING_API_KEY), [])
   \<and> get_client demo_env = Inr (NativClient_init (lit ''key'') None)
   \<and> map_of (headers (NativClient_init (lit ''key'') None)) (lit ''X-API-Key'') = Some (lit ''key'')"
proof -
  have k: "no_key_env (lit ''NATIV_API_KEY'') = None \<or> no_key_env (lit ''NATIV_API_KEY'') = Some []"
    by (simp add: no_key_env_def)
  have d: "demo_env (lit ''NATIV_API_KEY'') = Some (lit ''key'') \<and> lit ''key'' \<noteq> []"
    by (simp add: demo_env_def lit_def)
  have u: "demo_env (lit ''NATIV_API_URL'') = None"
    by (simp add: demo_env_def lit_def)
  show ?thesis
    using missing_api_key_fails_in_each_handler [where env = no_key_env and L = demo_lib
            and up = empty_dict_upstream and sent = "[]"] k
          missing_api_key_fails_in_each_handler [where env = demo_env and L = demo_lib
            and up = empty_dict_upstream and sent = "[]"] d u
    by simp
qed

text \<open>
  C4, as stated, fails: no check runs before a request is served, and the handler reads the
  environment itself. With the same upstream, \<open>get_languages\<close> raises the missing-key
  error under an environment without the key and returns its text under one with it.
\<close>

theorem credential_resolved_at_startup_counterexample:
  "fst (get_languages demo_lib no_key_env empty_dict_upstream []) = Inl (RuntimeError MISSING_API_KEY)
   \<and> fst (get_languages demo_lib demo_env empty_dict_upstream []) = Inr NO_LANGUAGES"
proof
  show "fst (get_languages demo_lib no_key_env empty_dict_upstream [])
          = Inl (RuntimeError MISSING_API_KEY)"
    by (simp add: get_languages_def get_client_def no_key_env_def)
  show "fst (get_languages demo_lib demo_env empty_dict_upstream []) = Inr NO_LANGUAGES"
    by (simp add: get_languages_def get_client_demo client_get_languages_def client_request_def
        empty_dict_upstream_def is_success_def languages_format_def)
qed


section \<open>\<open>translate\<close>: the match annotation\<close>




lemma no_tm_label_reference: "\<not> prefix TM_MATCH_LABEL (lit ''  TM reference: '' @ w)"
  by (simp add: TM_MATCH_LABEL_def lit_def nl_def)






lemma py_gt0_True_iff:
  "py_gt0 sc = Inr True \<longleftrightarrow>
     sc = JBool True \<or> (\<exists>i. sc = JInt i \<and> 0 < i) \<or> (\<exists>r. sc = JFloat (Fin r) \<and> 0 < r)
     \<or> sc = JFloat PosInf"
  by (cases sc rule: py_gt0.cases) auto

lemma optional_part_dict: "\<exists>ps. optional_part L (JObj r) key label = Inr ps"
  by (auto simp: optional_part_def split: option.splits)

lemma translate_parts_returns:
  assumes "map_of r (lit ''tm_match'') = None \<or> map_of r (lit ''tm_match'') = Some JNull
           \<or> (\<exists>t. map_of r (lit ''tm_match'') = Some (JObj t)
                 \<and> (\<forall>sc. map_of t (lit ''score'') = Some sc
                        \<longrightarrow> (\<exists>b. sc = JBool b) \<or> (\<exists>i. sc = JInt i \<and> in_float_range i)
                            \<or> (\<exists>x. sc = JFloat x)))"
  shows "\<exists>parts. translate_parts L target_language (JObj r) = Inr parts"
proof -
  obtain bt where bt: "optional_part L (JObj r) (lit ''backtranslation'') (lit ''**Back-translation:** '') = Inr bt"
    using optional_part_dict by blast
  obtain ra where ra: "optional_part L (JObj r) (lit ''rationale'') (lit ''**Rationale:** '') = Inr ra"
    using optional_part_dict by blast
  have "\<exists>ps. andthen (py_get (JObj r) (lit ''tm_match'') JNull) (tm_match_parts L) = Inr ps"
    using assms
  proof (elim disjE exE conjE)
    assume "map_of r (lit ''tm_match'') = None"
    then show ?thesis by (simp add: tm_match_parts_def)
  next
    assume "map_of r (lit ''tm_match'') = Some JNull"
    then show ?thesis by (simp add: tm_match_parts_def)
  next
    fix t
    assume t: "map_of r (lit ''tm_match'') = Some (JObj t)"
      and num: "\<forall>sc. map_of t (lit ''score'') = Some sc
                  \<longrightarrow> (\<exists>b. sc = JBool b) \<or> (\<exists>i. sc = JInt i \<and> in_float_range i)
                      \<or> (\<exists>x. sc = JFloat x)"
    show ?thesis
    proof (cases "map_of t (lit ''score'')")
      case None
      then show ?thesis using t by (simp add: tm_match_parts_def)
    next
      case (Some sc)
      with num have n: "(\<exists>b. sc = JBool b) \<or> (\<exists>i. sc = JInt i \<and> in_float_range i)
                        \<or> (\<exists>x. sc = JFloat x)"
        by blast
      then have "py_format_0f L sc = Inr (format_0f L sc)"
        by (rule py_format_0f_number)
      moreover from n obtain pos where "py_gt0 sc = Inr pos"
        by (cases sc rule: py_gt0.cases) auto
      ultimately obtain pos pct where "py_gt0 sc = Inr pos" and "py_format_0f L sc = Inr pct"
        by blast
      then show ?thesis using t Some
        by (auto simp: tm_match_parts_def split: option.splits)
    qed
  qed
  then obtain ps where ps: "andthen (py_get (JObj r) (lit ''tm_match'') JNull) (tm_match_parts L) = Inr ps"
    by blast
  then have "tm_match_parts L (case map_of r (lit ''tm_match'') of None \<Rightarrow> JNull | Some v \<Rightarrow> v) = Inr ps"
    by simp
  then show ?thesis
    using bt ra by (simp add: translate_parts_def)
qed




section \<open>\<open>search_translation_memory\<close>: sentinel and order\<close>

lemma tm_search_line_explicit:
  assumes "map_of kvs (lit ''score'') = Some sc"
    and "(\<exists>i. sc = JInt i \<and> in_float_range i) \<or> (\<exists>x. sc = JFloat x)"
    and "map_of kvs (lit ''source_text'') = Some st"
    and "map_of kvs (lit ''target_text'') = Some tt"
  shows "tm_search_line L (JObj kvs)
           = Inr (lit ''- **'' @ format_0f L sc @ lit ''%** [''
                  @ py_str L (case map_of kvs (lit ''match_type'') of
                                None \<Rightarrow> JStr [] | Some v \<Rightarrow> v)
                  @ lit ''] '' @ dq @ py_str L st @ dq @ lit '' '' @ arrow @ lit '' ''
                  @ dq @ py_str L tt @ dq @ lit '' (source: ''
                  @ py_str L (case map_of kvs (lit ''information_source'') of
                                None \<Rightarrow> JStr (lit ''N/A'') | Some v \<Rightarrow> v)
                  @ lit '')'')"
proof -
  from assms(2) have "py_format_0f L sc = Inr (format_0f L sc)"
    by (intro py_format_0f_number) blast
  moreover have "lit '' '' @ lit ''(source: '' @ w = lit '' (source: '' @ w" for w
    by (simp add: lit_def)
  ultimately show ?thesis
    using assms(1,3,4) by (simp add: tm_search_line_def)
qed

lemma tm_search_line_well_formed:
  assumes "\<exists>kvs sc st tt. m = JObj kvs
             \<and> map_of kvs (lit ''score'') = Some sc
             \<and> ((\<exists>i. sc = JInt i \<and> in_float_range i) \<or> (\<exists>x. sc = JFloat x))
             \<and> map_of kvs (lit ''source_text'') = Some st
             \<and> map_of kvs (lit ''target_text'') = Some tt"
  shows "\<exists>b. tm_search_line L m = Inr b"
proof -
  from assms obtain kvs sc st tt where m: "m = JObj kvs"
    and sc: "map_of kvs (lit ''score'') = Some sc"
    and num: "(\<exists>i. sc = JInt i \<and> in_float_range i) \<or> (\<exists>x. sc = JFloat x)"
    and st: "map_of kvs (lit ''source_text'') = Some st"
    and tt: "map_of kvs (lit ''target_text'') = Some tt"
    by blast
  show ?thesis
    unfolding m tm_search_line_explicit [OF sc num st tt] by blast
qed

lemma tm_search_overflow:
  assumes "map_of kvs (lit ''score'') = Some (JInt i)" and "\<not> in_float_range i"
  shows "tm_search_line L (JObj kvs)
           = Inl (OverflowError (lit ''int too large to convert to float''))"
  using assms by (simp add: tm_search_line_def)

text \<open>
  C6. When the credential is configured and the upstream answers with a dictionary:
  if \<open>matches\<close> is absent or the empty list, \<open>search_translation_memory\<close> returns exactly
  the text \<open>No translation memory matches found for "{query}".\<close>, hence no list;
  if \<open>matches\<close> is a non-empty list of matches, each a dictionary with a \<open>source_text\<close>, a
  \<open>target_text\<close> and a \<open>score\<close> that is a float or an integer within float range, it
  returns the header followed by one bullet per match, the i-th bullet showing the score,
  match type, texts and source of the i-th upstream match: the upstream order is kept.
\<close>

theorem search_translation_memory_results:
  assumes "get_client env = Inr client"
    and "fst (client_search_tm client up query source_language_code (or_none target_language_code)
                min_score limit sent) = Inr (JObj r)"
  shows "(map_of r (lit ''matches'') = None \<or> map_of r (lit ''matches'') = Some (JList [])
            \<longrightarrow> fst (search_translation_memory L env up query source_language_code
                       target_language_code min_score limit sent)
                = Inr (lit ''No translation memory matches found for '' @ dq @ query @ dq
                       @ lit ''.''))
       \<and> (\<forall>ms. map_of r (lit ''matches'') = Some (JList ms) \<and> ms \<noteq> []
                \<and> (\<forall>m \<in> set ms. \<exists>kvs sc st tt. m = JObj kvs
                       \<and> map_of kvs (lit ''score'') = Some sc
                       \<and> ((\<exists>i. sc = JInt i \<and> in_float_range i) \<or> (\<exists>x. sc = JFloat x))
                       \<and> map_of kvs (lit ''source_text'') = Some st
                       \<and> map_of kvs (lit ''target_text'') = Some tt)
            \<longrightarrow> (\<exists>bullets.
                   fst (search_translation_memory L env up query source_language_code
                          target_language_code min_score limit sent)
                     = Inr (join nl ((lit ''**TM Search Results** for '' @ dq @ query @ dq
                                      @ lit '' ('' @ str_nat (length ms) @ lit '' matches):'' @ nl)
                                     # bullets))
                 \<and> length bullets = length ms
                 \<and> (\<forall>i < length ms. \<forall>kvs sc st tt.
                        ms ! i = JObj kvs \<and> map_of kvs (lit ''score'') = Some sc
                        \<and> map_of kvs (lit ''source_text'') = Some st
                        \<and> map_of kvs (lit ''target_text'') = Some tt
                      \<longrightarrow> bullets ! i
                          = lit ''- **'' @ format_0f L sc @ lit ''%** [''
                          @ py_str L (case map_of kvs (lit ''match_type'') of
                                        None \<Rightarrow> JStr [] | Some v \<Rightarrow> v)
                          @ lit ''] '' @ dq @ py_str L st @ dq @ lit '' '' @ arrow @ lit '' ''
                          @ dq @ py_str L tt @ dq @ lit '' (source: ''
                          @ py_str L (case map_of kvs (lit ''information_source'') of
                                        None \<Rightarrow> JStr (lit ''N/A'') | Some v \<Rightarrow> v)
                          @ lit '')'')))"
proof (intro conjI impI allI)
  assume "map_of r (lit ''matches'') = None \<or> map_of r (lit ''matches'') = Some (JList [])"
  then show "fst (search_translation_memory L env up query source_language_code
                       target_language_code min_score limit sent)
                = Inr (lit ''No translation memory matches found for '' @ dq @ query @ dq
                       @ lit ''.'')"
    using assms
    by (auto simp: search_translation_memory_def tm_search_format_def NO_TM_MATCHES_def)
next
  fix ms
  assume h: "map_of r (lit ''matches'') = Some (JList ms) \<and> ms \<noteq> []
                \<and> (\<forall>m \<in> set ms. \<exists>kvs sc st tt. m = JObj kvs
                       \<and> map_of kvs (lit ''score'') = Some sc
                       \<and> ((\<exists>i. sc = JInt i \<and> in_float_range i) \<or> (\<exists>x. sc = JFloat x))
                       \<and> map_of kvs (lit ''source_text'') = Some st
                       \<and> map_of kvs (lit ''target_text'') = Some tt)"
  then have wf: "(\<forall>m \<in> set ms. \<exists>kvs sc st tt. m = JObj kvs
             \<and> map_of kvs (lit ''score'') = Some sc
             \<and> ((\<exists>i. sc = JInt i \<and> in_float_range i) \<or> (\<exists>x. sc = JFloat x))
             \<and> map_of kvs (lit ''source_text'') = Some st
             \<and> map_of kvs (lit ''target_text'') = Some tt)"
    by blast
  then have "\<forall>m \<in> set ms. \<exists>b. tm_search_line L m = Inr b"
    by (simp add: tm_search_line_well_formed)
  then obtain bullets where fe: "for_each (tm_search_line L) ms = Inr bullets"
    using for_each_total by blast
  then have la: "list_all2 (\<lambda>m b. tm_search_line L m = Inr b) ms bullets"
    by (simp add: for_each_Inr_iff)
  then have len: "length bullets = length ms"
    by (simp add: list_all2_lengthD)
  have nth: "\<forall>i < length ms. tm_search_line L (ms ! i) = Inr (bullets ! i)"
    using la by (simp add: list_all2_conv_all_nth)
  have each: "bullets ! i
                = lit ''- **'' @ format_0f L sc @ lit ''%** [''
                  @ py_str L (case map_of kvs (lit ''match_type'') of
                                None \<Rightarrow> JStr [] | Some v \<Rightarrow> v)
                  @ lit ''] '' @ dq @ py_str L st @ dq @ lit '' '' @ arrow @ lit '' ''
                  @ dq @ py_str L tt @ dq @ lit '' (source: ''
                  @ py_str L (case map_of kvs (lit ''information_source'') of
                                None \<Rightarrow> JStr (lit ''N/A'') | Some v \<Rightarrow> v)
                  @ lit '')''"
    if i: "i < length ms" and m: "ms ! i = JObj kvs"
      and sc: "map_of kvs (lit ''score'') = Some sc"
      and st: "map_of kvs (lit ''source_text'') = Some st"
      and tt: "map_of kvs (lit ''target_text'') = Some tt" for i kvs sc st tt
  proof -
    from i have "ms ! i \<in> set ms" by simp
    with wf m sc have num: "(\<exists>i. sc = JInt i \<and> in_float_range i) \<or> (\<exists>x. sc = JFloat x)"
      by fastforce
    from nth [rule_format, OF i] m have "tm_search_line L (JObj kvs) = Inr (bullets ! i)"
      by simp
    then show ?thesis
      unfolding tm_search_line_explicit [OF sc num st tt] by simp
  qed
  have out: "fst (search_translation_memory L env up query source_language_code
              target_language_code min_score limit sent)
          = Inr (join nl ((lit ''**TM Search Results** for '' @ dq @ query @ dq
                           @ lit '' ('' @ str_nat (length ms) @ lit '' matches):'' @ nl)
                          # bullets))"
    using assms h fe
    by (simp add: search_translation_memory_def tm_search_format_def tm_search_header_def)
  from out len each
  show "(\<exists>bullets.
          fst (search_translation_memory L env up query source_language_code
                 target_language_code min_score limit sent)
            = Inr (join nl ((lit ''**TM Search Results** for '' @ dq @ query @ dq
                             @ lit '' ('' @ str_nat (length ms) @ lit '' matches):'' @ nl)
                            # bullets))
                 \<and> length bullets = length ms
                 \<and> (\<forall>i < length ms. \<forall>kvs sc st tt.
               ms ! i = JObj kvs \<and> map_of kvs (lit ''score'') = Some sc
               \<and> map_of kvs (lit ''source_text'') = Some st
               \<and> map_of kvs (lit ''target_text'') = Some tt
             \<longrightarrow> bullets ! i
                 = lit ''- **'' @ format_0f L sc @ lit ''%** [''
                 @ py_str L (case map_of kvs (lit ''match_type'') of
                               None \<Rightarrow> JStr [] | Some v \<Rightarrow> v)
                 @ lit ''] '' @ dq @ py_str L st @ dq @ lit '' '' @ arrow @ lit '' ''
                 @ dq @ py_str L tt @ dq @ lit '' (source: ''
                 @ py_str L (case map_of kvs (lit ''information_source'') of
                               None \<Rightarrow> JStr (lit ''N/A'') | Some v \<Rightarrow> v)
                 @ lit '')''))"
    by blast
qed

theorem search_translation_memory_results_witness:
  "fst (search_translation_memory demo_lib demo_env (matches_upstream []) (lit ''Hello'')
          (lit ''en'') [] (Fin 0) 10 [])
     = Inr (lit ''No translation memory matches found for '' @ dq @ lit ''Hello'' @ dq @ lit ''.'')
   \<and> fst (search_translation_memory demo_lib demo_env
            (matches_upstream [tm_hit 80 (lit ''Hi'') (lit ''Salut''),
                               tm_hit 95 (lit ''Hello'') (lit ''Bonjour'')])
            (lit ''Hello'') (lit ''en'') [] (Fin 0) 10 [])
     = Inr (join nl
         [lit ''**TM Search Results** for '' @ dq @ lit ''Hello'' @ dq @ lit '' (2 matches):'' @ nl,
          lit ''- **80%** [fuzzy] '' @ dq @ lit ''Hi'' @ dq @ lit '' '' @ arrow @ lit '' '' @ dq
            @ lit ''Salut'' @ dq @ lit '' (source: N/A)'',
          lit ''- **95%** [fuzzy] '' @ dq @ lit ''Hello'' @ dq @ lit '' '' @ arrow @ lit '' '' @ dq
            @ lit ''Bonjour'' @ dq @ lit '' (source: N/A)''])"
proof -
  let ?k1 = "[(lit ''score'', JInt 80), (lit ''match_type'', JStr (lit ''fuzzy'')),
              (lit ''source_text'', JStr (lit ''Hi'')), (lit ''target_text'', JStr (lit ''Salut''))]"
  let ?k2 = "[(lit ''score'', JInt 95), (lit ''match_type'', JStr (lit ''fuzzy'')),
              (lit ''source_text'', JStr (lit ''Hello'')),
              (lit ''target_text'', JStr (lit ''Bonjour''))]"
  let ?b1 = "lit ''- **80%** [fuzzy] '' @ dq @ lit ''Hi'' @ dq @ lit '' '' @ arrow @ lit '' '' @ dq
            @ lit ''Salut'' @ dq @ lit '' (source: N/A)''"
  let ?b2 = "lit ''- **95%** [fuzzy] '' @ dq @ lit ''Hello'' @ dq @ lit '' '' @ arrow @ lit '' '' @ dq
            @ lit ''Bonjour'' @ dq @ lit '' (source: N/A)''"
  have m1: "tm_hit 80 (lit ''Hi'') (lit ''Salut'') = JObj ?k1"
    and m2: "tm_hit 95 (lit ''Hello'') (lit ''Bonjour'') = JObj ?k2"
    by (simp_all add: tm_hit_def)
  have resp: "fst (client_search_tm demo_client (matches_upstream ms) (lit ''Hello'') (lit ''en'')
                (or_none []) (Fin 0) 10 []) = Inr (JObj [(lit ''matches'', JList ms)])" for ms
    by (simp add: client_search_tm_def client_request_def matches_upstream_def is_success_def)
  have empty: "fst (search_translation_memory demo_lib demo_env (matches_upstream []) (lit ''Hello'')
          (lit ''en'') [] (Fin 0) 10 [])
      = Inr (lit ''No translation memory matches found for '' @ dq @ lit ''Hello'' @ dq @ lit ''.'')"
    using search_translation_memory_results [OF get_client_demo resp, of "[]" demo_lib]
    by simp
  have wf: "\<forall>m \<in> set [JObj ?k1, JObj ?k2]. \<exists>kvs sc st tt. m = JObj kvs
                       \<and> map_of kvs (lit ''score'') = Some sc
                       \<and> ((\<exists>i. sc = JInt i \<and> in_float_range i) \<or> (\<exists>x. sc = JFloat x))
                       \<and> map_of kvs (lit ''source_text'') = Some st
                       \<and> map_of kvs (lit ''target_text'') = Some tt"
    by (simp add: in_float_range_percent lit_def)
  have key: "map_of [(lit ''matches'', JList [JObj ?k1, JObj ?k2])] (lit ''matches'')
               = Some (JList [JObj ?k1, JObj ?k2])
             \<and> [JObj ?k1, JObj ?k2] \<noteq> []"
    by simp
  from search_translation_memory_results [OF get_client_demo resp, of "[JObj ?k1, JObj ?k2]" demo_lib]
       key wf
  obtain bullets where
    out: "fst (search_translation_memory demo_lib demo_env (matches_upstream [JObj ?k1, JObj ?k2])
                (lit ''Hello'') (lit ''en'') [] (Fin 0) 10 [])
            = Inr (join nl ((lit ''**TM Search Results** for '' @ dq @ lit ''Hello'' @ dq
                             @ lit '' ('' @ str_nat (length [JObj ?k1, JObj ?k2])
                             @ lit '' matches):'' @ nl) # bullets))"
    and len: "length bullets = length [JObj ?k1, JObj ?k2]"
    and nth: "\<forall>i < length [JObj ?k1, JObj ?k2]. \<forall>kvs sc st tt.
                [JObj ?k1, JObj ?k2] ! i = JObj kvs \<and> map_of kvs (lit ''score'') = Some sc
                \<and> map_of kvs (lit ''source_text'') = Some st
                \<and> map_of kvs (lit ''target_text'') = Some tt
              \<longrightarrow> bullets ! i
                  = lit ''- **'' @ format_0f demo_lib sc @ lit ''%** [''
                    @ py_str demo_lib (case map_of kvs (lit ''match_type'') of
                                         None \<Rightarrow> JStr [] | Some v \<Rightarrow> v)
                    @ lit ''] '' @ dq @ py_str demo_lib st @ dq @ lit '' '' @ arrow @ lit '' ''
                    @ dq @ py_str demo_lib tt @ dq @ lit '' (source: ''
                    @ py_str demo_lib (case map_of kvs (lit ''information_source'') of
                                         None \<Rightarrow> JStr (lit ''N/A'') | Some v \<Rightarrow> v)
                    @ lit '')''"
    by blast
  have n80: "str_int 80 = lit ''80''" and n95: "str_int 95 = lit ''95''"
    by (simp_all add: str_int_def str_nat.simps lit_def)
  have f1: "map_of ?k1 (lit ''score'') = Some (JInt 80)
            \<and> map_of ?k1 (lit ''source_text'') = Some (JStr (lit ''Hi''))
            \<and> map_of ?k1 (lit ''target_text'') = Some (JStr (lit ''Salut''))
            \<and> map_of ?k1 (lit ''match_type'') = Some (JStr (lit ''fuzzy''))
            \<and> map_of ?k1 (lit ''information_source'') = None"
    by (simp add: lit_def)
  have f2: "map_of ?k2 (lit ''score'') = Some (JInt 95)
            \<and> map_of ?k2 (lit ''source_text'') = Some (JStr (lit ''Hello''))
            \<and> map_of ?k2 (lit ''target_text'') = Some (JStr (lit ''Bonjour''))
            \<and> map_of ?k2 (lit ''match_type'') = Some (JStr (lit ''fuzzy''))
            \<and> map_of ?k2 (lit ''information_source'') = None"
    by (simp add: lit_def)
  from nth [rule_format, of 0 ?k1 "JInt 80" "JStr (lit ''Hi'')" "JStr (lit ''Salut'')"] f1
  have b0: "bullets ! 0 = ?b1"
    by (simp add: demo_lib_def n80 lit_def)
  from nth [rule_format, of 1 ?k2 "JInt 95" "JStr (lit ''Hello'')" "JStr (lit ''Bonjour'')"] f2
  have b1: "bullets ! 1 = ?b2"
    by (simp add: demo_lib_def n95 lit_def)
  from len obtain x y where xy: "bullets = [x, y]"
    by (auto simp: length_Suc_conv)
  with b0 b1 have "bullets = [?b1, ?b2]"
    by simp
  moreover have "str_nat (length [JObj ?k1, JObj ?k2]) = lit ''2''"
    by (simp add: str_nat.simps lit_def)
  ultimately have "fst (search_translation_memory demo_lib demo_env
                          (matches_upstream [JObj ?k1, JObj ?k2])
                          (lit ''Hello'') (lit ''en'') [] (Fin 0) 10 [])
            = Inr (join nl [lit ''**TM Search Results** for '' @ dq @ lit ''Hello'' @ dq
                            @ lit '' ('' @ lit ''2'' @ lit '' matches):'' @ nl, ?b1, ?b2])"
    using out by simp
  then have "fst (search_translation_memory demo_lib demo_env
                          (matches_upstream [JObj ?k1, JObj ?k2])
                          (lit ''Hello'') (lit ''en'') [] (Fin 0) 10 [])
            = Inr (join nl [lit ''**TM Search Results** for '' @ dq @ lit ''Hello'' @ dq
                            @ lit '' (2 matches):'' @ nl, ?b1, ?b2])"
    by (simp add: lit_def)
  with empty show ?thesis
    unfolding m1 m2 by simp
qed

section \<open>\<open>translate_batch\<close>: one entry per item\<close>

lemma batch_try_transport_error:
  assumes "up sent (batch_request c tlang tcode slang scode ctx fo t) = NoResponse m"
  shows "fst (batch_try L c up tlang tcode slang scode ctx fo i t sent) = Inl (TransportError m)"
  using assms
  by (simp add: batch_try_def client_translate_def client_request_def batch_request_def
      translate_request_def)

lemma batch_try_status_error:
  assumes "up sent (batch_request c tlang tcode slang scode ctx fo t) = Response status b"
    and "\<not> is_success status"
  shows "\<exists>e. fst (batch_try L c up tlang tcode slang scode ctx fo i t sent) = Inl e"
  using assms
  by (auto simp: batch_try_def client_translate_def client_request_def batch_request_def
      translate_request_def Let_def)

lemma snd_batch_try:
  "snd (batch_try L c up tlang tcode slang scode ctx fo i text sent)
     = sent @ [batch_request c tlang tcode slang scode ctx fo text]"
  by (simp add: batch_try_def snd_client_translate batch_request_def)

lemma batch_item_eq:
  "batch_item L c up tlang tcode slang scode ctx fo i text sent
     = (case fst (batch_try L c up tlang tcode slang scode ctx fo i text sent) of
          Inl e \<Rightarrow> batch_prefix i text @ lit ''ERROR: '' @ str_exn L e
        | Inr line \<Rightarrow> line,
        sent @ [batch_request c tlang tcode slang scode ctx fo text])"
proof -
  obtain r s where rs: "batch_try L c up tlang tcode slang scode ctx fo i text sent = (r, s)"
    by (cases "batch_try L c up tlang tcode slang scode ctx fo i text sent")
  with snd_batch_try [of L c up tlang tcode slang scode ctx fo i "text" sent]
  have "s = sent @ [batch_request c tlang tcode slang scode ctx fo text]" by simp
  with rs show ?thesis
    by (cases r) (simp_all add: batch_item_def)
qed

lemma batch_loop_lines:
  assumes "\<And>i t s. snd (item i t s) = s @ [g t]"
  shows "batch_loop item i texts results sent
           = (results @ map (\<lambda>k. fst (item (i + k) (texts ! k) (sent @ map g (take k texts))))
                          [0..<length texts],
              sent @ map g texts)"
proof (induction texts arbitrary: i results sent)
  case Nil
  then show ?case by simp
next
  case (Cons t ts)
  have step: "item i t sent = (fst (item i t sent), sent @ [g t])"
    using assms [of i t sent] by (cases "item i t sent") simp
  have "batch_loop item i (t # ts) results sent
          = batch_loop item (Suc i) ts (results @ [fst (item i t sent)]) (sent @ [g t])"
    by (subst batch_loop.simps) (subst step, simp)
  also have "\<dots> = ((results @ [fst (item i t sent)])
                     @ map (\<lambda>k. fst (item (Suc i + k) (ts ! k) ((sent @ [g t]) @ map g (take k ts))))
                         [0..<length ts],
                   (sent @ [g t]) @ map g ts)"
    by (rule Cons.IH)
  also have "\<dots> = (results @ map (\<lambda>k. fst (item (i + k) ((t # ts) ! k) (sent @ map g (take k (t # ts)))))
                          [0..<length (t # ts)],
              sent @ map g (t # ts))"
    by (simp add: map_upt_Suc del: upt_Suc)
  finally show ?case .
qed

lemma batch_try_prefix:
  assumes "fst (batch_try L c up tlang tcode slang scode ctx fo i text sent) = Inr line"
  shows "prefix (batch_prefix i text @ dq) line"
  using assms by (auto simp: batch_try_def andthen_eq_Inr)

lemma batch_prefix_index: "prefix (str_nat (Suc i) @ lit ''. '') (batch_prefix i text @ w)"
  by (simp add: batch_prefix_def)

lemma translate_batch_entries:
  assumes "get_client env = Inr client"
  shows "\<exists>lines.
      fst (translate_batch L env up texts target_language target_language_code source_language
             source_language_code ctx formality sent)
        = Inr (batch_header target_language (length texts) @ join nl lines)
    \<and> snd (translate_batch L env up texts target_language target_language_code source_language
             source_language_code ctx formality sent)
        = sent @ map (batch_request client target_language target_language_code
                        source_language source_language_code ctx formality) texts
    \<and> length lines = length texts
    \<and> (\<forall>i < length texts.
          prefix (str_nat (i + 1) @ lit ''. '') (lines ! i)
        \<and> (case fst (batch_try L client up target_language target_language_code source_language
                       source_language_code ctx formality i (texts ! i)
                       (sent @ map (batch_request client target_language target_language_code
                                      source_language source_language_code ctx formality)
                                 (take i texts))) of
              Inl e \<Rightarrow> lines ! i = batch_prefix i (texts ! i) @ lit ''ERROR: '' @ str_exn L e
            | Inr line \<Rightarrow> lines ! i = line \<and> prefix (batch_prefix i (texts ! i) @ dq) line))"
proof -
  let ?item = "batch_item L client up target_language target_language_code source_language
                 source_language_code ctx formality"
  let ?g = "batch_request client target_language target_language_code source_language
              source_language_code ctx formality"
  let ?attempt = "\<lambda>i. fst (batch_try L client up target_language target_language_code source_language
                       source_language_code ctx formality i (texts ! i)
                       (sent @ map ?g (take i texts)))"
  let ?lines = "map (\<lambda>k. fst (?item (0 + k) (texts ! k) (sent @ map ?g (take k texts))))
                  [0..<length texts]"
  have snd_item: "\<And>i t s. snd (?item i t s) = s @ [?g t]"
    by (simp add: batch_item_eq)
  have loop: "batch_loop ?item 0 texts [] sent = ([] @ ?lines, sent @ map ?g texts)"
    by (rule batch_loop_lines [OF snd_item])
  have out: "fst (translate_batch L env up texts target_language target_language_code
                    source_language source_language_code ctx formality sent)
               = Inr (batch_header target_language (length texts) @ join nl ?lines)"
    using assms loop by (simp add: translate_batch_def)
  have reqs: "snd (translate_batch L env up texts target_language target_language_code
                    source_language source_language_code ctx formality sent)
               = sent @ map ?g texts"
    using assms loop by (simp add: translate_batch_def)
  have len: "length ?lines = length texts"
    by simp
  have each: "prefix (str_nat (i + 1) @ lit ''. '') (?lines ! i)
        \<and> (case ?attempt i of
              Inl e \<Rightarrow> ?lines ! i = batch_prefix i (texts ! i) @ lit ''ERROR: '' @ str_exn L e
            | Inr line \<Rightarrow> ?lines ! i = line \<and> prefix (batch_prefix i (texts ! i) @ dq) line)"
    if i: "i < length texts" for i
  proof (cases "?attempt i")
    case (Inl e)
    with i have "?lines ! i = batch_prefix i (texts ! i) @ lit ''ERROR: '' @ str_exn L e"
      by (simp add: batch_item_eq)
    with Inl show ?thesis
      by (simp add: batch_prefix_index)
  next
    case (Inr line)
    with i have l: "?lines ! i = line"
      by (simp add: batch_item_eq)
    from Inr have p: "prefix (batch_prefix i (texts ! i) @ dq) line"
      by (rule batch_try_prefix)
    then obtain w where "line = batch_prefix i (texts ! i) @ dq @ w"
      by (auto simp: prefix_def)
    then have "prefix (str_nat (i + 1) @ lit ''. '') line"
      by (simp add: batch_prefix_index)
    with Inr l p show ?thesis
      by simp
  qed
  from out reqs len each show ?thesis
    by blast
qed

lemma split_nl_nonempty: "split_nl s \<noteq> []"
  by (induction s) (auto split: list.splits)

lemma split_nl_one_line: "10 \<notin> set x \<Longrightarrow> split_nl x = [x]"
  by (induction x) auto

lemma split_nl_first_line: "10 \<notin> set x \<Longrightarrow> split_nl (x @ 10 # ys) = x # split_nl ys"
  by (induction x) (auto split: list.splits)

lemma split_nl_join:
  assumes "ls \<noteq> []" and "\<forall>l \<in> set ls. 10 \<notin> set l"
  shows "split_nl (join nl ls) = ls"
  using assms
proof (induction nl ls rule: join.induct)
  case 1
  then show ?case by simp
next
  case (2 x)
  then show ?case by (simp add: split_nl_one_line)
next
  case (3 x y ys)
  then show ?case by (simp add: nl_def split_nl_first_line)
qed


lemma str_exn_transport [simp]: "str_exn L (TransportError m) = m"
  by simp

text \<open>
  C1, as amended. When the credential is configured, \<open>translate_batch\<close> on N texts returns
  the header followed by exactly N entries joined by newlines, one per text in input order,
  and it sends one request per text, in input order, whatever the outcomes. Entry i starts
  with its 1-based index \<open>i+1\<close>, a dot and the quoted text. It is decided by the \<open>try\<close>
  block of item i alone, run after the requests of the items before it: if the block raises
  \<open>e\<close> (as it does when the request meets a transport fault), the entry is
  \<open>{i+1}. "{text}" \<rightarrow> ERROR: {e}\<close>; if it returns, the entry is its success line
  \<open>{i+1}. "{text}" \<rightarrow> "{translated}"...\<close>. A failing item therefore neither stops the
  loop nor changes the entries of the items before and after it. An entry is copied into
  the output as it is: when no entry contains a newline, the N entries are exactly the
  physical lines after the header.
\<close>

theorem translate_batch_one_entry_per_item:
  assumes "get_client env = Inr client"
  shows "\<exists>entries.
      fst (translate_batch L env up texts target_language target_language_code source_language
             source_language_code ctx formality sent)
        = Inr (lit ''**Batch translation to '' @ target_language @ lit ''** (''
               @ str_nat (length texts) @ lit '' items):'' @ nl @ join nl entries)
    \<and> snd (translate_batch L env up texts target_language target_language_code source_language
             source_language_code ctx formality sent)
        = sent @ map (batch_request client target_language target_language_code
                        source_language source_language_code ctx formality) texts
    \<and> length entries = length texts
    \<and> (\<forall>i < length texts.
          prefix (str_nat (i + 1) @ lit ''. '') (entries ! i)
        \<and> (case fst (batch_try L client up target_language target_language_code source_language
                       source_language_code ctx formality i (texts ! i)
                       (sent @ map (batch_request client target_language target_language_code
                                      source_language source_language_code ctx formality)
                                 (take i texts))) of
              Inl e \<Rightarrow> entries ! i = str_nat (i + 1) @ lit ''. '' @ dq @ texts ! i @ dq @ lit '' ''
                                      @ arrow @ lit '' '' @ lit ''ERROR: '' @ str_exn L e
            | Inr line \<Rightarrow> entries ! i = line
                          \<and> prefix (str_nat (i + 1) @ lit ''. '' @ dq @ texts ! i @ dq @ lit '' ''
                                    @ arrow @ lit '' '' @ dq) line)
        \<and> (\<forall>m. up (sent @ map (batch_request client target_language target_language_code
                                   source_language source_language_code ctx formality)
                              (take i texts))
                    (batch_request client target_language target_language_code
                       source_language source_language_code ctx formality (texts ! i))
                  = NoResponse m
               \<longrightarrow> entries ! i = str_nat (i + 1) @ lit ''. '' @ dq @ texts ! i @ dq @ lit '' ''
                                  @ arrow @ lit '' '' @ lit ''ERROR: '' @ m))
    \<and> (texts \<noteq> [] \<and> (\<forall>e \<in> set entries. 10 \<notin> set e) \<longrightarrow> split_nl (join nl entries) = entries)"
proof -
  let ?g = "batch_request client target_language target_language_code source_language
              source_language_code ctx formality"
  let ?attempt = "\<lambda>i. fst (batch_try L client up target_language target_language_code source_language
                       source_language_code ctx formality i (texts ! i)
                       (sent @ map ?g (take i texts)))"
  have "\<exists>lines.
      fst (translate_batch L env up texts target_language target_language_code source_language
             source_language_code ctx formality sent)
        = Inr (batch_header target_language (length texts) @ join nl lines)
    \<and> snd (translate_batch L env up texts target_language target_language_code source_language
             source_language_code ctx formality sent)
        = sent @ map ?g texts
    \<and> length lines = length texts
    \<and> (\<forall>i < length texts.
          prefix (str_nat (i + 1) @ lit ''. '') (lines ! i)
        \<and> (case ?attempt i of
              Inl e \<Rightarrow> lines ! i = batch_prefix i (texts ! i) @ lit ''ERROR: '' @ str_exn L e
            | Inr line \<Rightarrow> lines ! i = line \<and> prefix (batch_prefix i (texts ! i) @ dq) line))"
    by (rule translate_batch_entries [OF assms])
  then obtain lines where
    out: "fst (translate_batch L env up texts target_language target_language_code source_language
             source_language_code ctx formality sent)
        = Inr (batch_header target_language (length texts) @ join nl lines)"
    and reqs: "snd (translate_batch L env up texts target_language target_language_code
                      source_language source_language_code ctx formality sent)
        = sent @ map ?g texts"
    and len: "length lines = length texts"
    and each: "\<forall>i < length texts.
          prefix (str_nat (i + 1) @ lit ''. '') (lines ! i)
        \<and> (case ?attempt i of
              Inl e \<Rightarrow> lines ! i = batch_prefix i (texts ! i) @ lit ''ERROR: '' @ str_exn L e
            | Inr line \<Rightarrow> lines ! i = line \<and> prefix (batch_prefix i (texts ! i) @ dq) line)"
    by blast
  have pre: "batch_prefix i (texts ! i) @ w = str_nat (i + 1) @ lit ''. '' @ dq @ texts ! i @ dq @ lit '' '' @ arrow @ lit '' '' @ w" for i w
    by (simp add: batch_prefix_def)
  have item: "prefix (str_nat (i + 1) @ lit ''. '') (lines ! i)
        \<and> (case ?attempt i of
              Inl e \<Rightarrow> lines ! i = str_nat (i + 1) @ lit ''. '' @ dq @ texts ! i @ dq @ lit '' '' @ arrow @ lit '' '' @ lit ''ERROR: '' @ str_exn L e
            | Inr line \<Rightarrow> lines ! i = line \<and> prefix (str_nat (i + 1) @ lit ''. '' @ dq @ texts ! i @ dq @ lit '' '' @ arrow @ lit '' '' @ dq) line)
        \<and> (\<forall>m. up (sent @ map ?g (take i texts)) (?g (texts ! i)) = NoResponse m
               \<longrightarrow> lines ! i = str_nat (i + 1) @ lit ''. '' @ dq @ texts ! i @ dq @ lit '' '' @ arrow @ lit '' '' @ lit ''ERROR: '' @ m)"
    if i: "i < length texts" for i
  proof (intro conjI allI impI)
    show "prefix (str_nat (i + 1) @ lit ''. '') (lines ! i)"
      using each i by blast
    show "case ?attempt i of
              Inl e \<Rightarrow> lines ! i = str_nat (i + 1) @ lit ''. '' @ dq @ texts ! i @ dq @ lit '' '' @ arrow @ lit '' '' @ lit ''ERROR: '' @ str_exn L e
            | Inr line \<Rightarrow> lines ! i = line \<and> prefix (str_nat (i + 1) @ lit ''. '' @ dq @ texts ! i @ dq @ lit '' '' @ arrow @ lit '' '' @ dq) line"
      using each [rule_format, OF i] pre [of i] by (cases "?attempt i") simp_all
  next
    fix m
    assume "up (sent @ map ?g (take i texts)) (?g (texts ! i)) = NoResponse m"
    then have "?attempt i = Inl (TransportError m)"
      by (rule batch_try_transport_error)
    with each [rule_format, OF i] pre [of i]
    show "lines ! i = str_nat (i + 1) @ lit ''. '' @ dq @ texts ! i @ dq @ lit '' '' @ arrow @ lit '' '' @ lit ''ERROR: '' @ m"
      by simp
  qed
  have phys: "texts \<noteq> [] \<and> (\<forall>e \<in> set lines. 10 \<notin> set e) \<longrightarrow> split_nl (join nl lines) = lines"
  proof
    assume h: "texts \<noteq> [] \<and> (\<forall>e \<in> set lines. 10 \<notin> set e)"
    with len have "lines \<noteq> []" by auto
    with h show "split_nl (join nl lines) = lines"
      by (simp add: split_nl_join)
  qed
  have out': "fst (translate_batch L env up texts target_language target_language_code
                     source_language source_language_code ctx formality sent)
        = Inr (lit ''**Batch translation to '' @ target_language @ lit ''** (''
               @ str_nat (length texts) @ lit '' items):'' @ nl @ join nl lines)"
    using out by (simp add: batch_header_def)
  from item have items: "\<forall>i < length texts.
          prefix (str_nat (i + 1) @ lit ''. '') (lines ! i)
        \<and> (case ?attempt i of
              Inl e \<Rightarrow> lines ! i = str_nat (i + 1) @ lit ''. '' @ dq @ texts ! i @ dq @ lit '' '' @ arrow @ lit '' '' @ lit ''ERROR: '' @ str_exn L e
            | Inr line \<Rightarrow> lines ! i = line \<and> prefix (str_nat (i + 1) @ lit ''. '' @ dq @ texts ! i @ dq @ lit '' '' @ arrow @ lit '' '' @ dq) line)
        \<and> (\<forall>m. up (sent @ map ?g (take i texts)) (?g (texts ! i)) = NoResponse m
               \<longrightarrow> lines ! i = str_nat (i + 1) @ lit ''. '' @ dq @ texts ! i @ dq @ lit '' '' @ arrow @ lit '' '' @ lit ''ERROR: '' @ m)"
    by blast
  show ?thesis
    by (rule exI [of _ lines]) (intro conjI out' reqs len items phys)
qed

theorem translate_batch_one_entry_per_item_witness:
  "fst (translate_batch demo_lib demo_env second_fails_upstream
          [lit ''one'', lit ''two'', lit ''three''] (lit ''French'') [] (lit ''English'')
          (lit ''en'') [] [] [])
     = Inr (lit ''**Batch translation to French** (3 items):'' @ nl
            @ join nl [lit ''1. '' @ dq @ lit ''one'' @ dq @ lit '' '' @ arrow @ lit '' '' @ dq @ lit ''ok'' @ dq,
                       lit ''2. '' @ dq @ lit ''two'' @ dq @ lit '' '' @ arrow @ lit '' ERROR: timed out'',
                       lit ''3. '' @ dq @ lit ''three'' @ dq @ lit '' '' @ arrow @ lit '' '' @ dq @ lit ''ok'' @ dq])
   \<and> split_nl (join nl [lit ''1. '' @ dq @ lit ''one'' @ dq @ lit '' '' @ arrow @ lit '' '' @ dq @ lit ''ok'' @ dq,
                       lit ''2. '' @ dq @ lit ''two'' @ dq @ lit '' '' @ arrow @ lit '' ERROR: timed out'',
                       lit ''3. '' @ dq @ lit ''three'' @ dq @ lit '' '' @ arrow @ lit '' '' @ dq @ lit ''ok'' @ dq])
     = [lit ''1. '' @ dq @ lit ''one'' @ dq @ lit '' '' @ arrow @ lit '' '' @ dq @ lit ''ok'' @ dq,
        lit ''2. '' @ dq @ lit ''two'' @ dq @ lit '' '' @ arrow @ lit '' ERROR: timed out'',
        lit ''3. '' @ dq @ lit ''three'' @ dq @ lit '' '' @ arrow @ lit '' '' @ dq @ lit ''ok'' @ dq]"
proof -
  let ?texts = "[lit ''one'', lit ''two'', lit ''three'']"
  let ?g = "batch_request demo_client (lit ''French'') [] (lit ''English'') (lit ''en'') [] []"
  let ?attempt = "\<lambda>i. fst (batch_try demo_lib demo_client second_fails_upstream (lit ''French'') []
                        (lit ''English'') (lit ''en'') [] [] i (?texts ! i)
                        ([] @ map ?g (take i ?texts)))"
  let ?l0 = "lit ''1. '' @ dq @ lit ''one'' @ dq @ lit '' '' @ arrow @ lit '' '' @ dq @ lit ''ok'' @ dq"
  let ?l1 = "lit ''2. '' @ dq @ lit ''two'' @ dq @ lit '' '' @ arrow @ lit '' ERROR: timed out''"
  let ?l2 = "lit ''3. '' @ dq @ lit ''three'' @ dq @ lit '' '' @ arrow @ lit '' '' @ dq @ lit ''ok'' @ dq"
  have d: "str_nat (Suc 0) = lit ''1''" "str_nat 2 = lit ''2''" "str_nat 3 = lit ''3''"
    "str_nat (Suc (Suc 0)) = lit ''2''" "str_nat (Suc (Suc (Suc 0))) = lit ''3''"
    by (simp_all add: str_nat.simps lit_def)
  have t0: "?attempt 0 = Inr ?l0"
    by (simp add: batch_try_def client_translate_def client_request_def second_fails_upstream_def
        is_success_def batch_tm_note_def batch_prefix_def d lit_def)
  have t1: "?attempt 1 = Inl (TransportError (lit ''timed out''))"
    by (simp add: batch_try_def client_translate_def client_request_def second_fails_upstream_def)
  have t2: "?attempt 2 = Inr ?l2"
    by (simp add: batch_try_def client_translate_def client_request_def second_fails_upstream_def
        is_success_def batch_tm_note_def batch_prefix_def d lit_def)
  from translate_batch_one_entry_per_item [OF get_client_demo, of demo_lib second_fails_upstream
         ?texts "lit ''French''" "[]" "lit ''English''" "lit ''en''" "[]" "[]" "[]"]
  obtain entries where
    out: "fst (translate_batch demo_lib demo_env second_fails_upstream ?texts (lit ''French'') []
                (lit ''English'') (lit ''en'') [] [] [])
            = Inr (lit ''**Batch translation to '' @ lit ''French'' @ lit ''** (''
                   @ str_nat (length ?texts) @ lit '' items):'' @ nl @ join nl entries)"
    and len: "length entries = length ?texts"
    and each: "\<forall>i < length ?texts.
          (case ?attempt i of
              Inl e \<Rightarrow> entries ! i = str_nat (i + 1) @ lit ''. '' @ dq @ ?texts ! i @ dq @ lit '' ''
                                      @ arrow @ lit '' '' @ lit ''ERROR: '' @ str_exn demo_lib e
            | Inr line \<Rightarrow> entries ! i = line
                          \<and> prefix (str_nat (i + 1) @ lit ''. '' @ dq @ ?texts ! i @ dq @ lit '' ''
                                    @ arrow @ lit '' '' @ dq) line)"
    and phys: "?texts \<noteq> [] \<and> (\<forall>e \<in> set entries. 10 \<notin> set e)
                 \<longrightarrow> split_nl (join nl entries) = entries"
    by blast
  from each [rule_format, of 0] t0 have e0: "entries ! 0 = ?l0"
    by simp
  from each [rule_format, of 1] t1 have e1: "entries ! 1 = ?l1"
    by (simp add: d lit_def)
  from each [rule_format, of 2] t2 have e2: "entries ! 2 = ?l2"
    by simp
  from len obtain x y z where "entries = [x, y, z]"
    by (auto simp: length_Suc_conv numeral_3_eq_3)
  with e0 e1 e2 have es: "entries = [?l0, ?l1, ?l2]"
    by simp
  have "\<forall>e \<in> set [?l0, ?l1, ?l2]. 10 \<notin> set e"
    by (simp add: lit_def dq_def arrow_def)
  with phys es have lines: "split_nl (join nl [?l0, ?l1, ?l2]) = [?l0, ?l1, ?l2]"
    by simp
  have hdr: "lit ''**Batch translation to '' @ lit ''French'' @ lit ''** (''
               @ str_nat (length ?texts) @ lit '' items):'' @ w
             = lit ''**Batch translation to French** (3 items):'' @ w" for w
    by (simp add: str_nat.simps lit_def)
  from out es have "fst (translate_batch demo_lib demo_env second_fails_upstream ?texts
                           (lit ''French'') [] (lit ''English'') (lit ''en'') [] [] [])
            = Inr (lit ''**Batch translation to French** (3 items):'' @ nl
                   @ join nl [?l0, ?l1, ?l2])"
    unfolding hdr by simp
  with lines show ?thesis
    by blast
qed

text \<open>
  C1, as stated, fails: an entry can span several physical lines. For one text and an
  upstream that answers status 500, the error message of \<open>httpx\<close> has two lines, so the
  output has two lines after the header, the second without an index; the same happens
  without any failure when the text itself contains a newline.
\<close>

theorem translate_batch_exactly_n_lines_counterexample:
  "fst (translate_batch demo_lib demo_env status_500_upstream [lit ''Hello''] (lit ''French'') []
          (lit ''English'') (lit ''en'') [] [] [])
     = Inr (lit ''**Batch translation to French** (1 items):'' @ nl
            @ lit ''1. '' @ dq @ lit ''Hello'' @ dq @ lit '' '' @ arrow
               @ lit '' ERROR: Error 500 for url https://api.usenativ.com/text/culturalize'' @ nl
            @ lit ''For more information check the status'')
   \<and> split_nl (lit ''1. '' @ dq @ lit ''Hello'' @ dq @ lit '' '' @ arrow
               @ lit '' ERROR: Error 500 for url https://api.usenativ.com/text/culturalize'' @ nl
               @ lit ''For more information check the status'')
     = [lit ''1. '' @ dq @ lit ''Hello'' @ dq @ lit '' '' @ arrow
               @ lit '' ERROR: Error 500 for url https://api.usenativ.com/text/culturalize'',
        lit ''For more information check the status'']
   \<and> fst (translate_batch demo_lib demo_env empty_dict_upstream [lit ''a'' @ nl @ lit ''b'']
            (lit ''French'') [] (lit ''English'') (lit ''en'') [] [] [])
     = Inr (lit ''**Batch translation to French** (1 items):'' @ nl
            @ lit ''1. '' @ dq @ lit ''a'' @ nl @ lit ''b'' @ dq @ lit '' '' @ arrow @ lit '' '' @ dq @ dq)
   \<and> split_nl (lit ''1. '' @ dq @ lit ''a'' @ nl @ lit ''b'' @ dq @ lit '' '' @ arrow @ lit '' '' @ dq @ dq)
     = [lit ''1. '' @ dq @ lit ''a'', lit ''b'' @ dq @ lit '' '' @ arrow @ lit '' '' @ dq @ dq]"
proof (intro conjI)
  have one: "str_nat (Suc 0) = lit ''1''" "str_nat 500 = lit ''500''"
    by (simp_all add: str_nat.simps lit_def)
  have url: "base_url demo_client = lit ''https://api.usenativ.com''"
    by (simp add: demo_client_def NativClient_init_def DEFAULT_API_URL_def rstrip_slash_def lit_def)
  show "fst (translate_batch demo_lib demo_env status_500_upstream [lit ''Hello''] (lit ''French'') []
          (lit ''English'') (lit ''en'') [] [] [])
     = Inr (lit ''**Batch translation to French** (1 items):'' @ nl
            @ lit ''1. '' @ dq @ lit ''Hello'' @ dq @ lit '' '' @ arrow
               @ lit '' ERROR: Error 500 for url https://api.usenativ.com/text/culturalize'' @ nl
            @ lit ''For more information check the status'')"
    by (simp add: translate_batch_def get_client_demo batch_item_def batch_try_def
        client_translate_def client_request_def status_500_upstream_def is_success_def
        demo_lib_def url batch_header_def batch_prefix_def one lit_def)
  show "split_nl (lit ''1. '' @ dq @ lit ''Hello'' @ dq @ lit '' '' @ arrow
               @ lit '' ERROR: Error 500 for url https://api.usenativ.com/text/culturalize'' @ nl
               @ lit ''For more information check the status'')
     = [lit ''1. '' @ dq @ lit ''Hello'' @ dq @ lit '' '' @ arrow
               @ lit '' ERROR: Error 500 for url https://api.usenativ.com/text/culturalize'',
        lit ''For more information check the status'']"
    by (simp add: lit_def dq_def arrow_def nl_def)
  show "fst (translate_batch demo_lib demo_env empty_dict_upstream [lit ''a'' @ nl @ lit ''b'']
            (lit ''French'') [] (lit ''English'') (lit ''en'') [] [] [])
     = Inr (lit ''**Batch translation to French** (1 items):'' @ nl
            @ lit ''1. '' @ dq @ lit ''a'' @ nl @ lit ''b'' @ dq @ lit '' '' @ arrow @ lit '' '' @ dq @ dq)"
    by (simp add: translate_batch_def get_client_demo batch_item_def batch_try_def
        client_translate_def client_request_def empty_dict_upstream_def is_success_def
        batch_tm_note_def batch_header_def batch_prefix_def one lit_def)
  show "split_nl (lit ''1. '' @ dq @ lit ''a'' @ nl @ lit ''b'' @ dq @ lit '' '' @ arrow @ lit '' '' @ dq @ dq)
     = [lit ''1. '' @ dq @ lit ''a'', lit ''b'' @ dq @ lit '' '' @ arrow @ lit '' '' @ dq @ dq]"
    by (simp add: lit_def dq_def arrow_def nl_def)
qed


section \<open>Absent fields\<close>

lemma tm_search_line_missing_score:
  assumes "map_of kvs (lit ''score'') = None"
  shows "tm_search_line L (JObj kvs) = Inl (KeyError (lit ''score''))"
  using assms by (simp add: tm_search_line_def)

lemma language_entry_missing_language:
  assumes "map_of kvs (lit ''language'') = None"
  shows "language_entry L (JObj kvs) = Inl (KeyError (lit ''language''))"
  using assms by (simp add: language_entry_def)

text \<open>
  C5. The claim asks every formatter to tolerate an absent field through a default.
  \<open>search_translation_memory\<close> reads \<open>m['score']\<close>, \<open>m['source_text']\<close> and
  \<open>m['target_text']\<close> by subscript, and \<open>get_languages\<close> reads \<open>lang['language']\<close> and
  \<open>lang['language_code']\<close> by subscript, while the neighbouring fields of the same
  dictionaries go through \<open>.get\<close> with a default. On a match without \<open>score\<close>,
  \<open>source_text\<close> or \<open>target_text\<close>, and on a language without \<open>language\<close>, the handler
  raises \<open>KeyError\<close> instead of returning text.
\<close>

theorem missing_fields_raise_key_error:
  "fst (search_translation_memory demo_lib demo_env
          (matches_upstream [JObj [(lit ''source_text'', JStr (lit ''Hello'')),
                                   (lit ''target_text'', JStr (lit ''Bonjour''))]])
          (lit ''Hello'') (lit ''en'') [] (Fin 0) 10 [])
     = Inl (KeyError (lit ''score''))
   \<and> fst (search_translation_memory demo_lib demo_env
          (matches_upstream [JObj [(lit ''score'', JInt 90),
                                   (lit ''target_text'', JStr (lit ''Bonjour''))]])
          (lit ''Hello'') (lit ''en'') [] (Fin 0) 10 [])
     = Inl (KeyError (lit ''source_text''))
   \<and> fst (search_translation_memory demo_lib demo_env
          (matches_upstream [JObj [(lit ''score'', JInt 90),
                                   (lit ''source_text'', JStr (lit ''Hello''))]])
          (lit ''Hello'') (lit ''en'') [] (Fin 0) 10 [])
     = Inl (KeyError (lit ''target_text''))
   \<and> fst (get_languages demo_lib demo_env
          (languages_upstream [JObj [(lit ''language_code'', JStr (lit ''fr''))]]) [])
     = Inl (KeyError (lit ''language''))"
proof (intro conjI)
  show "fst (search_translation_memory demo_lib demo_env
          (matches_upstream [JObj [(lit ''source_text'', JStr (lit ''Hello'')),
                                   (lit ''target_text'', JStr (lit ''Bonjour''))]])
          (lit ''Hello'') (lit ''en'') [] (Fin 0) 10 [])
     = Inl (KeyError (lit ''score''))"
    by (simp add: search_translation_memory_def get_client_demo client_search_tm_def
        client_request_def matches_upstream_def is_success_def tm_search_format_def
        tm_search_line_def in_float_range_percent lit_def)
  show "fst (search_translation_memory demo_lib demo_env
          (matches_upstream [JObj [(lit ''score'', JInt 90),
                                   (lit ''target_text'', JStr (lit ''Bonjour''))]])
          (lit ''Hello'') (lit ''en'') [] (Fin 0) 10 [])
     = Inl (KeyError (lit ''source_text''))"
    by (simp add: search_translation_memory_def get_client_demo client_search_tm_def
        client_request_def matches_upstream_def is_success_def tm_search_format_def
        tm_search_line_def in_float_range_percent lit_def)
  show "fst (search_translation_memory demo_lib demo_env
          (matches_upstream [JObj [(lit ''score'', JInt 90),
                                   (lit ''source_text'', JStr (lit ''Hello''))]])
          (lit ''Hello'') (lit ''en'') [] (Fin 0) 10 [])
     = Inl (KeyError (lit ''target_text''))"
    by (simp add: search_translation_memory_def get_client_demo client_search_tm_def
        client_request_def matches_upstream_def is_success_def tm_search_format_def
        tm_search_line_def in_float_range_percent lit_def)
  show "fst (get_languages demo_lib demo_env
          (languages_upstream [JObj [(lit ''language_code'', JStr (lit ''fr''))]]) [])
     = Inl (KeyError (lit ''language''))"
    by (simp add: get_languages_def get_client_demo client_get_languages_def
        client_request_def languages_upstream_def is_success_def languages_format_def
        language_entry_def lit_def)
qed


end
